theory Spec2Isabelle
  imports
    Main
    "HOL-Library.AList"
    "HOL-Library.Char_ord"
    "HOL-Library.List_Lexorder"
begin

section \<open>Go values used by the client\<close>

text \<open>
  A Go \<open>string\<close> is a sequence of bytes: \<^typ>\<open>string\<close>. Strings are compared byte by
  byte, which is the lexicographic order on \<^typ>\<open>char list\<close>.

  Every \<open>error\<close> of the package is made by one of five library calls. The package itself
  only calls \<open>errors.New\<close>; the other four come back from \<open>url.Parse\<close>, \<open>http.Get\<close>,
  \<open>ioutil.ReadAll\<close> and \<open>json.Unmarshal\<close>, with the library's message.
\<close>

datatype error =
    errors_New string
  | url_Error string
  | net_Error string
  | io_Error string
  | json_Error string

text \<open>
  A call either returns a value with a nil error, returns a non-nil error, or panics
  (the package has no \<open>panic\<close> of its own: the runtime panics on a write to a nil map and
  on a method call on a nil interface, and foreign code may panic).
\<close>

datatype 'a result = Ok 'a | Err error | Panic string

subsection \<open>Maps of type \<open>map[string]string\<close>\<close>

text \<open>
  A map is a reference: the caller and the callee share the object. The store keeps the
  contents of every map by address; a contents is an association list with distinct
  keys, whose order is the order in which one \<open>range\<close> loop happens to visit the entries
  (Go leaves that order open). \<open>nil\<close> is a map value too: it reads as empty and panics on
  assignment. A map literal takes the next free address; the addresses below \<open>next_addr\<close>
  are the ones in use.
\<close>

datatype mapref = nil | Ref nat

record world =
  requests :: "string list"
  heap :: "nat \<Rightarrow> (string \<times> string) list"
  next_addr :: nat

definition map_entries :: "mapref \<Rightarrow> world \<Rightarrow> (string \<times> string) list" where
  "map_entries m w = (case m of nil \<Rightarrow> [] | Ref a \<Rightarrow> heap w a)"

definition map_assign :: "mapref \<Rightarrow> string \<Rightarrow> string \<Rightarrow> world \<Rightarrow> world option" where
  "map_assign m k v w =
     (case m of
        nil \<Rightarrow> None
      | Ref a \<Rightarrow> Some (w\<lparr>heap := (heap w)(a := AList.update k v (heap w a))\<rparr>))"

definition map_literal :: "(string \<times> string) list \<Rightarrow> world \<Rightarrow> mapref \<times> world" where
  "map_literal kvs w =
     (Ref (next_addr w),
      w\<lparr>heap := (heap w)(next_addr w := kvs), next_addr := Suc (next_addr w)\<rparr>)"

definition nil_map_panic :: string where
  "nil_map_panic = ''assignment to entry in nil map''"

subsection \<open>\<open>fmt.Sprintf\<close> with string arguments\<close>

text \<open>
  \<open>Sprintf\<close> returns a string and nothing else: it has no error result. It copies the
  format up to each \<open>%\<close>; \<open>%%\<close> writes a percent sign; \<open>%s\<close> and \<open>%v\<close> write the next
  argument; a verb with no argument left writes \<open>%!verb(MISSING)\<close>; another verb writes
  \<open>%!verb(string=argument)\<close>; a \<open>%\<close> that ends the format writes \<open>%!(NOVERB)\<close>; arguments
  left over at the end are written as \<open>%!(EXTRA string=a, string=b)\<close>. Flags, widths,
  precisions, argument indexes, the verbs \<open>q\<close>, \<open>x\<close>, \<open>X\<close> and verbs outside ASCII are
  outside the model: the templates of the package contain no directive but \<open>%s\<close>.
\<close>

fun extra_args :: "string list \<Rightarrow> string" where
  "extra_args [] = []"
| "extra_args [x] = ''string='' @ x"
| "extra_args (x # y # a) = ''string='' @ x @ '', '' @ extra_args (y # a)"

fun Sprintf :: "string \<Rightarrow> string list \<Rightarrow> string" where
  "Sprintf [] a = (if a = [] then [] else ''%!(EXTRA '' @ extra_args a @ '')'')"
| "Sprintf [c] a = (if c = CHR ''%'' then ''%!(NOVERB)'' else [c]) @ Sprintf [] a"
| "Sprintf (c # verb # format) a =
     (if c \<noteq> CHR ''%'' then c # Sprintf (verb # format) a
      else if verb = CHR ''%'' then CHR ''%'' # Sprintf format a
      else (case a of
              [] \<Rightarrow> ''%!'' @ [verb] @ ''(MISSING)'' @ Sprintf format []
            | x # a' \<Rightarrow>
                (if verb = CHR ''s'' \<or> verb = CHR ''v'' then x
                 else ''%!'' @ [verb] @ ''(string='' @ x @ '')'') @ Sprintf format a'))"

subsection \<open>\<open>net/url\<close>: query escaping and \<open>url.Values\<close>\<close>

definition upperhex :: "nat \<Rightarrow> char" where
  "upperhex n = ''0123456789ABCDEF'' ! n"

text \<open>\<open>shouldEscape\<close> in mode \<open>encodeQueryComponent\<close>: only the unreserved characters pass.\<close>

definition shouldEscape :: "char \<Rightarrow> bool" where
  "shouldEscape c =
     (let n = (of_char c :: nat) in
      \<not> ((97 \<le> n \<and> n \<le> 122) \<or> (65 \<le> n \<and> n \<le> 90) \<or> (48 \<le> n \<and> n \<le> 57)
         \<or> c = CHR ''-'' \<or> c = CHR ''_'' \<or> c = CHR ''.'' \<or> c = CHR ''~''))"

fun QueryEscape :: "string \<Rightarrow> string" where
  "QueryEscape [] = []"
| "QueryEscape (c # s) =
     (if c = CHR '' '' then CHR ''+'' # QueryEscape s
      else if shouldEscape c
        then CHR ''%'' # upperhex (of_char c div 16) # upperhex (of_char c mod 16) # QueryEscape s
      else c # QueryEscape s)"

text \<open>
  \<open>url.Values\<close> is \<open>map[string][]string\<close>. \<open>Add\<close> is \<open>v[key] = append(v[key], value)\<close>.
  \<open>Encode\<close> sorts the keys and writes \<open>key=value\<close> for every value of every key into one
  buffer, with \<open>&\<close> before each pair but the first.
\<close>

type_synonym Values = "(string \<times> string list) list"

definition Values_Get :: "Values \<Rightarrow> string \<Rightarrow> string list" where
  "Values_Get v key = (case map_of v key of None \<Rightarrow> [] | Some vs \<Rightarrow> vs)"

definition Values_Add :: "string \<Rightarrow> string \<Rightarrow> Values \<Rightarrow> Values" where
  "Values_Add key value v = AList.update key (Values_Get v key @ [value]) v"

definition write_pair :: "string \<Rightarrow> string \<Rightarrow> string \<Rightarrow> string" where
  "write_pair keyEscaped value buf =
     (if buf \<noteq> [] then buf @ ''&'' else buf) @ keyEscaped @ ''='' @ QueryEscape value"

definition Values_Encode :: "Values \<Rightarrow> string" where
  "Values_Encode v =
     (if v = [] then []
      else fold (\<lambda>k buf. fold (write_pair (QueryEscape k)) (Values_Get v k) buf)
             (sort (map fst v)) [])"

subsection \<open>\<open>net/url\<close>: the URL value\<close>

text \<open>
  \<open>url.Parse\<close> belongs to the standard library and is a parameter of the model. Of the
  URL it returns, the package assigns \<open>RawQuery\<close> and calls \<open>String()\<close>, which writes the
  scheme, authority and path, then \<open>?\<close> and \<open>RawQuery\<close> when \<open>ForceQuery\<close> is set or
  \<open>RawQuery\<close> is not empty, then \<open>#\<close> and the escaped fragment when there is a fragment.
  The record keeps the two query fields as Go has them, and the other parts as
  \<open>String()\<close> writes them.
\<close>

record URL =
  BeforeQuery :: string
  ForceQuery :: bool
  RawQuery :: string
  EscapedFragment :: string

definition URL_String :: "URL \<Rightarrow> string" where
  "URL_String u =
     BeforeQuery u
     @ (if ForceQuery u \<or> RawQuery u \<noteq> [] then ''?'' @ RawQuery u else [])
     @ (if EscapedFragment u \<noteq> [] then ''#'' @ EscapedFragment u else [])"

subsection \<open>\<open>net/http\<close> and \<open>encoding/json\<close>\<close>

text \<open>
  \<open>Body\<close> is what \<open>ioutil.ReadAll(resp.Body)\<close> gives. The environment holds the library
  calls whose answers the package does not determine: the parser of URLs, the default
  HTTP client behind \<open>http.Get\<close> (its answer may depend on the requests made so far),
  the table \<open>http.StatusText\<close>, and \<open>json.Unmarshal\<close> into the caller's target type \<open>'a\<close>.
\<close>

record Response =
  StatusCode :: int
  Body :: "error + string"

record 'a env =
  url_Parse :: "string \<Rightarrow> error + URL"
  http_Get :: "string list \<Rightarrow> string \<Rightarrow> error + Response"
  StatusText :: "int \<Rightarrow> string"
  json_Unmarshal :: "string \<Rightarrow> error + 'a"

definition StatusOK :: int where
  "StatusOK = 200"

text \<open>
  \<open>http.StatusText\<close> of the standard library is a switch over the status codes that it
  names, with the empty string for every other code. The environment holds the table, so
  that what is proved of \<open>Do\<close> holds for the table of every release; \<open>http_StatusText\<close> is
  the table as the library has it, and the value of \<open>StatusText\<close> in the worked examples.
\<close>

definition status_table :: "(int \<times> string) list" where
  "status_table =
     [(100, ''Continue''),
      (101, ''Switching Protocols''),
      (102, ''Processing''),
      (103, ''Early Hints''),
      (200, ''OK''),
      (201, ''Created''),
      (202, ''Accepted''),
      (203, ''Non-Authoritative Information''),
      (204, ''No Content''),
      (205, ''Reset Content''),
      (206, ''Partial Content''),
      (207, ''Multi-Status''),
      (208, ''Already Reported''),
      (226, ''IM Used''),
      (300, ''Multiple Choices''),
      (301, ''Moved Permanently''),
      (302, ''Found''),
      (303, ''See Other''),
      (304, ''Not Modified''),
      (305, ''Use Proxy''),
      (307, ''Temporary Redirect''),
      (308, ''Permanent Redirect''),
      (400, ''Bad Request''),
      (401, ''Unauthorized''),
      (402, ''Payment Required''),
      (403, ''Forbidden''),
      (404, ''Not Found''),
      (405, ''Method Not Allowed''),
      (406, ''Not Acceptable''),
      (407, ''Proxy Authentication Required''),
      (408, ''Request Timeout''),
      (409, ''Conflict''),
      (410, ''Gone''),
      (411, ''Length Required''),
      (412, ''Precondition Failed''),
      (413, ''Request Entity Too Large''),
      (414, ''Request URI Too Long''),
      (415, ''Unsupported Media Type''),
      (416, ''Requested Range Not Satisfiable''),
      (417, ''Expectation Failed''),
      (418, ''I'' @ [CHR 0x27] @ ''m a teapot''),
      (421, ''Misdirected Request''),
      (422, ''Unprocessable Entity''),
      (423, ''Locked''),
      (424, ''Failed Dependency''),
      (425, ''Too Early''),
      (426, ''Upgrade Required''),
      (428, ''Precondition Required''),
      (429, ''Too Many Requests''),
      (431, ''Request Header Fields Too Large''),
      (451, ''Unavailable For Legal Reasons''),
      (500, ''Internal Server Error''),
      (501, ''Not Implemented''),
      (502, ''Bad Gateway''),
      (503, ''Service Unavailable''),
      (504, ''Gateway Timeout''),
      (505, ''HTTP Version Not Supported''),
      (506, ''Variant Also Negotiates''),
      (507, ''Insufficient Storage''),
      (508, ''Loop Detected''),
      (510, ''Not Extended''),
      (511, ''Network Authentication Required'')]"

definition http_StatusText :: "int \<Rightarrow> string" where
  "http_StatusText code = (case map_of status_table code of Some text \<Rightarrow> text | None \<Rightarrow> [])"

section \<open>The client\<close>

subsection \<open>Settings and options\<close>

text \<open>
  \<open>Client\<close> is a \<open>*http.Client\<close>; the handle is opaque to the package (\<open>'c\<close>). A client
  is one that \<open>NewOdbClient\<close> made: its \<open>Settings\<close> pointer is never nil.
\<close>

record 'c Settings =
  ApiKey :: string
  Client :: "'c option"

record 'c OdbClient =
  Settings :: "'c Settings"

text \<open>
  \<open>Option\<close> is an interface with the method \<open>Apply(*Settings)\<close>. A value of the interface
  is nil, or the package's own \<open>withApiKey\<close>, or a value of a type that another package
  declares. Calling \<open>Apply\<close> on the nil interface panics; a foreign \<open>Apply\<close> is any function on
  the settings, which returns them changed or panics with a value of its own (\<open>Inl\<close>).
  \<open>Apply\<close> has no error result.
\<close>

datatype 'c Option =
    nil_Option
  | withApiKey string
  | foreign_Option "'c Settings \<Rightarrow> string + 'c Settings"

definition nil_pointer_panic :: string where
  "nil_pointer_panic = ''runtime error: invalid memory address or nil pointer dereference''"

fun Apply :: "'c Option \<Rightarrow> 'c Settings \<Rightarrow> string + 'c Settings" where
  "Apply nil_Option o' = Inl nil_pointer_panic"
| "Apply (withApiKey w) o' = Inr (o'\<lparr>ApiKey := w\<rparr>)"
| "Apply (foreign_Option f) o' = f o'"

definition WithApiKey :: "string \<Rightarrow> 'c Option" where
  "WithApiKey apiKey = withApiKey apiKey"

definition zero_Settings :: "'c Settings" where
  "zero_Settings = \<lparr>ApiKey = [], Client = None\<rparr>"

text \<open>The loop of \<open>ApplySettings\<close>: the options in order, each on the settings so far.\<close>

fun apply_options :: "'c Option list \<Rightarrow> 'c Settings \<Rightarrow> string + 'c Settings" where
  "apply_options [] setting = Inr setting"
| "apply_options (option # options) setting =
     (case Apply option setting of
        Inl panic \<Rightarrow> Inl panic
      | Inr setting' \<Rightarrow> apply_options options setting')"

definition ApplySettings :: "'c Option list \<Rightarrow> 'c Settings result" where
  "ApplySettings options =
     (case apply_options options zero_Settings of
        Inl panic \<Rightarrow> Panic panic
      | Inr setting \<Rightarrow> Ok setting)"

definition NewOdbClient :: "'c Option list \<Rightarrow> 'c OdbClient result" where
  "NewOdbClient options =
     (case ApplySettings options of
        Err err \<Rightarrow> Err err
      | Panic panic \<Rightarrow> Panic panic
      | Ok settings \<Rightarrow> Ok \<lparr>Settings = settings\<rparr>)"

subsection \<open>Pre-checks\<close>

definition checkApiKey :: "'c OdbClient \<Rightarrow> error option" where
  "checkApiKey odb =
     (if ApiKey (Settings odb) = [] then Some (errors_New ''ApiKey is not specified'') else None)"

definition checkNotEmpty :: "string \<Rightarrow> error option" where
  "checkNotEmpty id' = (if id' = [] then Some (errors_New ''Id is not specified'') else None)"

subsection \<open>Building the URL and making the request\<close>

definition buildQueryParams ::
  "(string \<Rightarrow> error + URL) \<Rightarrow> string \<Rightarrow> (string \<times> string) list \<Rightarrow> error + string" where
  "buildQueryParams parse endpoint params =
     (case parse endpoint of
        Inl err \<Rightarrow> Inl err
      | Inr base \<Rightarrow>
          (let query = fold (\<lambda>(key, value). Values_Add key value) params []
           in Inr (URL_String (base\<lparr>RawQuery := Values_Encode query\<rparr>))))"

definition Do :: "'a env \<Rightarrow> 'c OdbClient \<Rightarrow> string \<Rightarrow> mapref \<Rightarrow> world \<Rightarrow> 'a result \<times> world" where
  "Do env odb endpoint params w =
     (case (if ApiKey (Settings odb) \<noteq> []
            then map_assign params ''apiKey'' (ApiKey (Settings odb)) w
            else Some w) of
        None \<Rightarrow> (Panic nil_map_panic, w)
      | Some w1 \<Rightarrow>
          (case buildQueryParams (url_Parse env) endpoint (map_entries params w1) of
             Inl err \<Rightarrow> (Err err, w1)
           | Inr endpointWithParams \<Rightarrow>
               (let w2 = w1\<lparr>requests := requests w1 @ [endpointWithParams]\<rparr> in
                case http_Get env (requests w1) endpointWithParams of
                  Inl err \<Rightarrow> (Err err, w2)
                | Inr resp \<Rightarrow>
                    if StatusCode resp \<noteq> StatusOK
                    then (Err (errors_New (StatusText env (StatusCode resp))), w2)
                    else (case Body resp of
                            Inl err \<Rightarrow> (Err err, w2)
                          | Inr body \<Rightarrow>
                              (case json_Unmarshal env body of
                                 Inl err \<Rightarrow> (Err err, w2)
                               | Inr v \<Rightarrow> (Ok v, w2))))))"

subsection \<open>Endpoint templates\<close>

definition governmentCompaniesEndpoint :: string where
  "governmentCompaniesEndpoint = ''https://opendatabot.com/api/v2/government-companies''"

definition dpaEndpoint :: string where
  "dpaEndpoint = ''https://opendatabot.com/api/v2/dpa/%s''"

definition companyEndpoint :: string where
  "companyEndpoint = ''https://opendatabot.com/api/v2/company/%s''"

definition changesEndpoint :: string where
  "changesEndpoint = ''https://opendatabot.com/api/v2/changed/%s''"

definition wagedebtEndpoint :: string where
  "wagedebtEndpoint = ''https://opendatabot.com/api/v2/wagedebt/%s''"

definition auditEndpoint :: string where
  "auditEndpoint = ''https://opendatabot.com/api/v2/audit''"

definition auditByIdEndpoint :: string where
  "auditByIdEndpoint = ''https://opendatabot.com/api/v2/audit/%s''"

definition registrationsEndpoint :: string where
  "registrationsEndpoint = ''https://opendatabot.com/api/v2/registrations''"

definition registrationByIdEndpoint :: string where
  "registrationByIdEndpoint = ''https://opendatabot.com/api/v2/registrations/%s''"

definition inspectionsEndpoint :: string where
  "inspectionsEndpoint = ''https://opendatabot.com/api/v2/inspections''"

definition inspectionByIdEndpoint :: string where
  "inspectionByIdEndpoint = ''https://opendatabot.com/api/v2/inspections/%s''"

definition pdfEndpoint :: string where
  "pdfEndpoint = ''https://opendatabot.com/api/v2/pdf/%s''"

definition permitsEndpoint :: string where
  "permitsEndpoint = ''https://opendatabot.com/api/v2/permits''"

definition singletaxEndpoint :: string where
  "singletaxEndpoint = ''https://opendatabot.com/api/v2/singletax''"

definition vatEndpoint :: string where
  "vatEndpoint = ''https://opendatabot.com/api/v2/vat''"

definition courtEndpoint :: string where
  "courtEndpoint = ''https://opendatabot.com/api/v2/court''"

definition institutionsEndpoint :: string where
  "institutionsEndpoint = ''https://opendatabot.com/api/v2/institutions''"

definition courtByIdEndpoint :: string where
  "courtByIdEndpoint = ''https://opendatabot.com/api/v2/court/%s''"

definition scheduleEndpoint :: string where
  "scheduleEndpoint = ''https://opendatabot.com/api/v2/schedule''"

definition accusedEndpoint :: string where
  "accusedEndpoint = ''https://opendatabot.com/api/v2/accused''"

definition scheduleByIdEndpoint :: string where
  "scheduleByIdEndpoint = ''https://opendatabot.com/api/v2/schedule/%s''"

definition companyCourtsEndpoint :: string where
  "companyCourtsEndpoint = ''https://opendatabot.com/api/v2/company-courts''"

definition companyCourtsByTypeEndpoint :: string where
  "companyCourtsByTypeEndpoint = ''https://opendatabot.com/api/v2/company-courts/%s''"

definition courtCasesEndpoint :: string where
  "courtCasesEndpoint = ''https://opendatabot.com/api/v2/court-cases/%s''"

definition transportEndpoint :: string where
  "transportEndpoint = ''https://opendatabot.com/api/v2/transport''"

definition transportByIdEndpoint :: string where
  "transportByIdEndpoint = ''https://opendatabot.com/api/v2/transport/%s''"

definition transportLicensesEndpoint :: string where
  "transportLicensesEndpoint = ''https://opendatabot.com/api/v2/transport-licenses''"

definition transportLicensesByIdEndpoint :: string where
  "transportLicensesByIdEndpoint = ''https://opendatabot.com/api/v2/transport-licenses/%s''"

definition genKeyEndpoint :: string where
  "genKeyEndpoint = ''https://opendatabot.com/api/v2/genKey''"

definition statisticsEndpoint :: string where
  "statisticsEndpoint = ''https://opendatabot.com/api/v2/statistics''"

definition alimentEndpoint :: string where
  "alimentEndpoint = ''https://opendatabot.com/api/v2/aliment''"

definition lawyersEndpoint :: string where
  "lawyersEndpoint = ''https://opendatabot.com/api/v2/lawyers''"

definition lawyersByIdEndpoint :: string where
  "lawyersByIdEndpoint = ''https://opendatabot.com/api/v2/lawyers/%s''"

definition corruptOfficialsByIdEndpoint :: string where
  "corruptOfficialsByIdEndpoint = ''https://opendatabot.com/api/v2/corrupt-officials/%s''"

definition corruptOfficialsEndpoint :: string where
  "corruptOfficialsEndpoint = ''https://opendatabot.com/api/v2/corrupt-officials''"

definition passportEndpoint :: string where
  "passportEndpoint = ''https://opendatabot.com/api/v2/passport''"

definition wantedEndpoint :: string where
  "wantedEndpoint = ''https://opendatabot.com/api/v2/wanted''"

definition fullPenaltyByNumberEndpoint :: string where
  "fullPenaltyByNumberEndpoint = ''https://opendatabot.com/api/v2/full-penalty/%s''"

definition fullPenaltyDocByNumberEndpoint :: string where
  "fullPenaltyDocByNumberEndpoint = ''https://opendatabot.com/api/v2/full-penalty-doc/%s''"

definition fullPenaltyEndpoint :: string where
  "fullPenaltyEndpoint = ''https://opendatabot.com/api/v2/full-penalty''"

definition performerEndpoint :: string where
  "performerEndpoint = ''https://opendatabot.com/api/v2/performer''"

definition penaltiesByCodeEndpoint :: string where
  "penaltiesByCodeEndpoint = ''https://opendatabot.com/api/v2/penalties/%s''"

definition penaltyByNumberEndpoint :: string where
  "penaltyByNumberEndpoint = ''https://opendatabot.com/api/v2/penalty/%s''"

definition penaltiesEndpoint :: string where
  "penaltiesEndpoint = ''https://opendatabot.com/api/v2/penalties''"

definition koatuuRegionsEndpoint :: string where
  "koatuuRegionsEndpoint = ''https://opendatabot.com/api/v2/koatuu/regions''"

definition koatuuRegionsByCodeEndpoint :: string where
  "koatuuRegionsByCodeEndpoint = ''https://opendatabot.com/api/v2/koatuu/regions/%s''"

definition realtyEndpoint :: string where
  "realtyEndpoint = ''https://opendatabot.com/api/v2/realty''"

definition realtyByIdEndpoint :: string where
  "realtyByIdEndpoint = ''https://opendatabot.com/api/v2/realty/%s/%s''"

definition realtyResultEndpoint :: string where
  "realtyResultEndpoint = ''https://opendatabot.com/api/v2/realty-result''"

definition realtyReportByNumberEndpoint :: string where
  "realtyReportByNumberEndpoint = ''https://opendatabot.com/api/v2/realty-report/%s''"

definition timelineEndpoint :: string where
  "timelineEndpoint = ''https://opendatabot.com/api/v2/timeline''"

subsection \<open>The endpoint methods\<close>

definition GetGovernmentCompany ::
  "'a env \<Rightarrow> 'c OdbClient \<Rightarrow> string \<Rightarrow> world \<Rightarrow> 'a result \<times> world" where
  "GetGovernmentCompany env odb code w =
     (case checkNotEmpty code of Some err \<Rightarrow> (Err err, w) | None \<Rightarrow>
     (case checkApiKey odb of Some err \<Rightarrow> (Err err, w) | None \<Rightarrow>
     (case map_literal [(''code'', code)] w of (params, w1) \<Rightarrow>
     Do env odb governmentCompaniesEndpoint params w1)))"

definition GetDpa ::
  "'a env \<Rightarrow> 'c OdbClient \<Rightarrow> string \<Rightarrow> world \<Rightarrow> 'a result \<times> world" where
  "GetDpa env odb code w =
     (case checkNotEmpty code of Some err \<Rightarrow> (Err err, w) | None \<Rightarrow>
     (case checkApiKey odb of Some err \<Rightarrow> (Err err, w) | None \<Rightarrow>
     (let endpoint = Sprintf dpaEndpoint [code] in
     (case map_literal [] w of (params, w1) \<Rightarrow>
     Do env odb endpoint params w1))))"

definition GetCompany ::
  "'a env \<Rightarrow> 'c OdbClient \<Rightarrow> string \<Rightarrow> world \<Rightarrow> 'a result \<times> world" where
  "GetCompany env odb code w =
     (case checkNotEmpty code of Some err \<Rightarrow> (Err err, w) | None \<Rightarrow>
     (case checkApiKey odb of Some err \<Rightarrow> (Err err, w) | None \<Rightarrow>
     (let endpoint = Sprintf companyEndpoint [code] in
     (case map_literal [] w of (params, w1) \<Rightarrow>
     Do env odb endpoint params w1))))"

definition GetChanges ::
  "'a env \<Rightarrow> 'c OdbClient \<Rightarrow> string \<Rightarrow> mapref \<Rightarrow> world \<Rightarrow> 'a result \<times> world" where
  "GetChanges env odb code params w =
     (case checkNotEmpty code of Some err \<Rightarrow> (Err err, w) | None \<Rightarrow>
     (case checkApiKey odb of Some err \<Rightarrow> (Err err, w) | None \<Rightarrow>
     (let endpoint = Sprintf changesEndpoint [code] in
     Do env odb endpoint params w)))"

definition GetWagedebt ::
  "'a env \<Rightarrow> 'c OdbClient \<Rightarrow> string \<Rightarrow> world \<Rightarrow> 'a result \<times> world" where
  "GetWagedebt env odb code w =
     (case checkNotEmpty code of Some err \<Rightarrow> (Err err, w) | None \<Rightarrow>
     (case checkApiKey odb of Some err \<Rightarrow> (Err err, w) | None \<Rightarrow>
     (let endpoint = Sprintf wagedebtEndpoint [code] in
     (case map_literal [] w of (params, w1) \<Rightarrow>
     Do env odb endpoint params w1))))"

definition GetAudit ::
  "'a env \<Rightarrow> 'c OdbClient \<Rightarrow> mapref \<Rightarrow> world \<Rightarrow> 'a result \<times> world" where
  "GetAudit env odb params w =
     (case checkApiKey odb of Some err \<Rightarrow> (Err err, w) | None \<Rightarrow>
     Do env odb auditEndpoint params w)"

definition GetAuditById ::
  "'a env \<Rightarrow> 'c OdbClient \<Rightarrow> string \<Rightarrow> world \<Rightarrow> 'a result \<times> world" where
  "GetAuditById env odb id' w =
     (case checkNotEmpty id' of Some err \<Rightarrow> (Err err, w) | None \<Rightarrow>
     (case checkApiKey odb of Some err \<Rightarrow> (Err err, w) | None \<Rightarrow>
     (let endpoint = Sprintf auditByIdEndpoint [id'] in
     (case map_literal [] w of (params, w1) \<Rightarrow>
     Do env odb endpoint params w1))))"

definition GetRegistrations ::
  "'a env \<Rightarrow> 'c OdbClient \<Rightarrow> mapref \<Rightarrow> world \<Rightarrow> 'a result \<times> world" where
  "GetRegistrations env odb params w =
     (case checkApiKey odb of Some err \<Rightarrow> (Err err, w) | None \<Rightarrow>
     Do env odb registrationsEndpoint params w)"

definition GetRegistrationById ::
  "'a env \<Rightarrow> 'c OdbClient \<Rightarrow> string \<Rightarrow> world \<Rightarrow> 'a result \<times> world" where
  "GetRegistrationById env odb id' w =
     (case checkNotEmpty id' of Some err \<Rightarrow> (Err err, w) | None \<Rightarrow>
     (case checkApiKey odb of Some err \<Rightarrow> (Err err, w) | None \<Rightarrow>
     (let endpoint = Sprintf registrationByIdEndpoint [id'] in
     (case map_literal [] w of (params, w1) \<Rightarrow>
     Do env odb endpoint params w1))))"

definition GetInspections ::
  "'a env \<Rightarrow> 'c OdbClient \<Rightarrow> string \<Rightarrow> world \<Rightarrow> 'a result \<times> world" where
  "GetInspections env odb code w =
     (case checkNotEmpty code of Some err \<Rightarrow> (Err err, w) | None \<Rightarrow>
     (case checkApiKey odb of Some err \<Rightarrow> (Err err, w) | None \<Rightarrow>
     (case map_literal [(''code'', code)] w of (params, w1) \<Rightarrow>
     Do env odb inspectionsEndpoint params w1)))"

definition GetInspectionById ::
  "'a env \<Rightarrow> 'c OdbClient \<Rightarrow> string \<Rightarrow> world \<Rightarrow> 'a result \<times> world" where
  "GetInspectionById env odb id' w =
     (case checkNotEmpty id' of Some err \<Rightarrow> (Err err, w) | None \<Rightarrow>
     (case checkApiKey odb of Some err \<Rightarrow> (Err err, w) | None \<Rightarrow>
     (let endpoint = Sprintf inspectionByIdEndpoint [id'] in
     (case map_literal [] w of (params, w1) \<Rightarrow>
     Do env odb endpoint params w1))))"

definition GetPdf ::
  "'a env \<Rightarrow> 'c OdbClient \<Rightarrow> string \<Rightarrow> world \<Rightarrow> 'a result \<times> world" where
  "GetPdf env odb code w =
     (case checkNotEmpty code of Some err \<Rightarrow> (Err err, w) | None \<Rightarrow>
     (case checkApiKey odb of Some err \<Rightarrow> (Err err, w) | None \<Rightarrow>
     (let endpoint = Sprintf pdfEndpoint [code] in
     (case map_literal [] w of (params, w1) \<Rightarrow>
     Do env odb endpoint params w1))))"

definition GetPermits ::
  "'a env \<Rightarrow> 'c OdbClient \<Rightarrow> mapref \<Rightarrow> world \<Rightarrow> 'a result \<times> world" where
  "GetPermits env odb params w =
     (case checkApiKey odb of Some err \<Rightarrow> (Err err, w) | None \<Rightarrow>
     Do env odb permitsEndpoint params w)"

definition GetSingletax ::
  "'a env \<Rightarrow> 'c OdbClient \<Rightarrow> mapref \<Rightarrow> world \<Rightarrow> 'a result \<times> world" where
  "GetSingletax env odb params w =
     (case checkApiKey odb of Some err \<Rightarrow> (Err err, w) | None \<Rightarrow>
     Do env odb singletaxEndpoint params w)"

definition GetVat ::
  "'a env \<Rightarrow> 'c OdbClient \<Rightarrow> mapref \<Rightarrow> world \<Rightarrow> 'a result \<times> world" where
  "GetVat env odb params w =
     (case checkApiKey odb of Some err \<Rightarrow> (Err err, w) | None \<Rightarrow>
     Do env odb vatEndpoint params w)"

definition GetCourt ::
  "'a env \<Rightarrow> 'c OdbClient \<Rightarrow> mapref \<Rightarrow> world \<Rightarrow> 'a result \<times> world" where
  "GetCourt env odb params w =
     (case checkApiKey odb of Some err \<Rightarrow> (Err err, w) | None \<Rightarrow>
     Do env odb courtEndpoint params w)"

definition GetInstitutions ::
  "'a env \<Rightarrow> 'c OdbClient \<Rightarrow> mapref \<Rightarrow> world \<Rightarrow> 'a result \<times> world" where
  "GetInstitutions env odb params w =
     Do env odb institutionsEndpoint params w"

definition GetCourtById ::
  "'a env \<Rightarrow> 'c OdbClient \<Rightarrow> string \<Rightarrow> world \<Rightarrow> 'a result \<times> world" where
  "GetCourtById env odb id' w =
     (case checkApiKey odb of Some err \<Rightarrow> (Err err, w) | None \<Rightarrow>
     (let endpoint = Sprintf courtByIdEndpoint [id'] in
     (case map_literal [] w of (params, w1) \<Rightarrow>
     Do env odb endpoint params w1)))"

definition GetSchedule ::
  "'a env \<Rightarrow> 'c OdbClient \<Rightarrow> mapref \<Rightarrow> world \<Rightarrow> 'a result \<times> world" where
  "GetSchedule env odb params w =
     (case checkApiKey odb of Some err \<Rightarrow> (Err err, w) | None \<Rightarrow>
     Do env odb scheduleEndpoint params w)"

definition GetAccused ::
  "'a env \<Rightarrow> 'c OdbClient \<Rightarrow> mapref \<Rightarrow> world \<Rightarrow> 'a result \<times> world" where
  "GetAccused env odb params w =
     (case checkApiKey odb of Some err \<Rightarrow> (Err err, w) | None \<Rightarrow>
     Do env odb accusedEndpoint params w)"

definition GetScheduleById ::
  "'a env \<Rightarrow> 'c OdbClient \<Rightarrow> string \<Rightarrow> world \<Rightarrow> 'a result \<times> world" where
  "GetScheduleById env odb id' w =
     (case checkApiKey odb of Some err \<Rightarrow> (Err err, w) | None \<Rightarrow>
     (let endpoint = Sprintf scheduleByIdEndpoint [id'] in
     (case map_literal [] w of (params, w1) \<Rightarrow>
     Do env odb endpoint params w1)))"

definition GetCompanyCourts ::
  "'a env \<Rightarrow> 'c OdbClient \<Rightarrow> string \<Rightarrow> world \<Rightarrow> 'a result \<times> world" where
  "GetCompanyCourts env odb code w =
     (case checkApiKey odb of Some err \<Rightarrow> (Err err, w) | None \<Rightarrow>
     (case map_literal [(''code'', code)] w of (params, w1) \<Rightarrow>
     Do env odb companyCourtsEndpoint params w1))"

definition GetCompanyCourtsByType ::
  "'a env \<Rightarrow> 'c OdbClient \<Rightarrow> string \<Rightarrow> string \<Rightarrow> mapref \<Rightarrow> world \<Rightarrow> 'a result \<times> world" where
  "GetCompanyCourtsByType env odb courtsType code params w =
     (case checkApiKey odb of Some err \<Rightarrow> (Err err, w) | None \<Rightarrow>
     (let endpoint = Sprintf companyCourtsByTypeEndpoint [courtsType] in
     (case map_assign params ''code'' code w of None \<Rightarrow> (Panic nil_map_panic, w) | Some w1 \<Rightarrow>
     Do env odb endpoint params w1)))"

definition GetCourtCases ::
  "'a env \<Rightarrow> 'c OdbClient \<Rightarrow> string \<Rightarrow> mapref \<Rightarrow> world \<Rightarrow> 'a result \<times> world" where
  "GetCourtCases env odb number params w =
     (case checkApiKey odb of Some err \<Rightarrow> (Err err, w) | None \<Rightarrow>
     (let endpoint = Sprintf courtCasesEndpoint [number] in
     Do env odb endpoint params w))"

definition GetTransports ::
  "'a env \<Rightarrow> 'c OdbClient \<Rightarrow> mapref \<Rightarrow> world \<Rightarrow> 'a result \<times> world" where
  "GetTransports env odb params w =
     (case checkApiKey odb of Some err \<Rightarrow> (Err err, w) | None \<Rightarrow>
     Do env odb transportEndpoint params w)"

definition GetTransportById ::
  "'a env \<Rightarrow> 'c OdbClient \<Rightarrow> string \<Rightarrow> world \<Rightarrow> 'a result \<times> world" where
  "GetTransportById env odb id' w =
     (case checkApiKey odb of Some err \<Rightarrow> (Err err, w) | None \<Rightarrow>
     (let endpoint = Sprintf transportByIdEndpoint [id'] in
     (case map_literal [] w of (params, w1) \<Rightarrow>
     Do env odb endpoint params w1)))"

definition GetTransportLicenses ::
  "'a env \<Rightarrow> 'c OdbClient \<Rightarrow> mapref \<Rightarrow> world \<Rightarrow> 'a result \<times> world" where
  "GetTransportLicenses env odb params w =
     (case checkApiKey odb of Some err \<Rightarrow> (Err err, w) | None \<Rightarrow>
     Do env odb transportLicensesEndpoint params w)"

definition GetTransportLicensesById ::
  "'a env \<Rightarrow> 'c OdbClient \<Rightarrow> string \<Rightarrow> world \<Rightarrow> 'a result \<times> world" where
  "GetTransportLicensesById env odb id' w =
     (case checkApiKey odb of Some err \<Rightarrow> (Err err, w) | None \<Rightarrow>
     (let endpoint = Sprintf transportLicensesByIdEndpoint [id'] in
     (case map_literal [] w of (params, w1) \<Rightarrow>
     Do env odb endpoint params w1)))"

definition GetGenKey ::
  "'a env \<Rightarrow> 'c OdbClient \<Rightarrow> string \<Rightarrow> string \<Rightarrow> world \<Rightarrow> 'a result \<times> world" where
  "GetGenKey env odb salt id' w =
     (case checkApiKey odb of Some err \<Rightarrow> (Err err, w) | None \<Rightarrow>
     (case map_literal [(''salt'', salt), (''id'', id')] w of (params, w1) \<Rightarrow>
     Do env odb genKeyEndpoint params w1))"

definition GetStatistics ::
  "'a env \<Rightarrow> 'c OdbClient \<Rightarrow> world \<Rightarrow> 'a result \<times> world" where
  "GetStatistics env odb w =
     (case checkApiKey odb of Some err \<Rightarrow> (Err err, w) | None \<Rightarrow>
     (case map_literal [] w of (params, w1) \<Rightarrow>
     Do env odb statisticsEndpoint params w1))"

definition GetAliment ::
  "'a env \<Rightarrow> 'c OdbClient \<Rightarrow> string \<Rightarrow> mapref \<Rightarrow> world \<Rightarrow> 'a result \<times> world" where
  "GetAliment env odb pib params w =
     (case checkApiKey odb of Some err \<Rightarrow> (Err err, w) | None \<Rightarrow>
     (case map_assign params ''pib'' pib w of None \<Rightarrow> (Panic nil_map_panic, w) | Some w1 \<Rightarrow>
     Do env odb alimentEndpoint params w1))"

definition GetLawyers ::
  "'a env \<Rightarrow> 'c OdbClient \<Rightarrow> mapref \<Rightarrow> world \<Rightarrow> 'a result \<times> world" where
  "GetLawyers env odb params w =
     (case checkApiKey odb of Some err \<Rightarrow> (Err err, w) | None \<Rightarrow>
     Do env odb lawyersEndpoint params w)"

definition GetLawyerById ::
  "'a env \<Rightarrow> 'c OdbClient \<Rightarrow> string \<Rightarrow> world \<Rightarrow> 'a result \<times> world" where
  "GetLawyerById env odb id' w =
     (case checkApiKey odb of Some err \<Rightarrow> (Err err, w) | None \<Rightarrow>
     (let endpoint = Sprintf lawyersByIdEndpoint [id'] in
     (case map_literal [] w of (params, w1) \<Rightarrow>
     Do env odb endpoint params w1)))"

definition GetCorruptOfficialsById ::
  "'a env \<Rightarrow> 'c OdbClient \<Rightarrow> string \<Rightarrow> world \<Rightarrow> 'a result \<times> world" where
  "GetCorruptOfficialsById env odb id' w =
     (case checkApiKey odb of Some err \<Rightarrow> (Err err, w) | None \<Rightarrow>
     (let endpoint = Sprintf corruptOfficialsByIdEndpoint [id'] in
     (case map_literal [] w of (params, w1) \<Rightarrow>
     Do env odb endpoint params w1)))"

definition GetCorruptOfficials ::
  "'a env \<Rightarrow> 'c OdbClient \<Rightarrow> string \<Rightarrow> mapref \<Rightarrow> world \<Rightarrow> 'a result \<times> world" where
  "GetCorruptOfficials env odb pib params w =
     (case checkApiKey odb of Some err \<Rightarrow> (Err err, w) | None \<Rightarrow>
     (case map_assign params ''pib'' pib w of None \<Rightarrow> (Panic nil_map_panic, w) | Some w1 \<Rightarrow>
     Do env odb corruptOfficialsEndpoint params w1))"

definition GetPassport ::
  "'a env \<Rightarrow> 'c OdbClient \<Rightarrow> string \<Rightarrow> world \<Rightarrow> 'a result \<times> world" where
  "GetPassport env odb number w =
     (case checkApiKey odb of Some err \<Rightarrow> (Err err, w) | None \<Rightarrow>
     (case map_literal [(''number'', number)] w of (params, w1) \<Rightarrow>
     Do env odb passportEndpoint params w1))"

definition GetWanted ::
  "'a env \<Rightarrow> 'c OdbClient \<Rightarrow> string \<Rightarrow> mapref \<Rightarrow> world \<Rightarrow> 'a result \<times> world" where
  "GetWanted env odb pib params w =
     (case checkApiKey odb of Some err \<Rightarrow> (Err err, w) | None \<Rightarrow>
     (case map_assign params ''pib'' pib w of None \<Rightarrow> (Panic nil_map_panic, w) | Some w1 \<Rightarrow>
     Do env odb wantedEndpoint params w1))"

definition GetFullPenaltyByNumber ::
  "'a env \<Rightarrow> 'c OdbClient \<Rightarrow> string \<Rightarrow> mapref \<Rightarrow> world \<Rightarrow> 'a result \<times> world" where
  "GetFullPenaltyByNumber env odb number params w =
     (case checkApiKey odb of Some err \<Rightarrow> (Err err, w) | None \<Rightarrow>
     (let endpoint = Sprintf fullPenaltyByNumberEndpoint [number] in
     Do env odb endpoint params w))"

definition GetFullPenaltyDocByNumber ::
  "'a env \<Rightarrow> 'c OdbClient \<Rightarrow> string \<Rightarrow> string \<Rightarrow> world \<Rightarrow> 'a result \<times> world" where
  "GetFullPenaltyDocByNumber env odb number secret w =
     (case checkApiKey odb of Some err \<Rightarrow> (Err err, w) | None \<Rightarrow>
     (let endpoint = Sprintf fullPenaltyDocByNumberEndpoint [number] in
     (case map_literal [(''secret'', secret)] w of (params, w1) \<Rightarrow>
     Do env odb endpoint params w1)))"

definition GetFullPenalty ::
  "'a env \<Rightarrow> 'c OdbClient \<Rightarrow> mapref \<Rightarrow> world \<Rightarrow> 'a result \<times> world" where
  "GetFullPenalty env odb params w =
     (case checkApiKey odb of Some err \<Rightarrow> (Err err, w) | None \<Rightarrow>
     Do env odb fullPenaltyEndpoint params w)"

definition GetPerformer ::
  "'a env \<Rightarrow> 'c OdbClient \<Rightarrow> mapref \<Rightarrow> world \<Rightarrow> 'a result \<times> world" where
  "GetPerformer env odb params w =
     (case checkApiKey odb of Some err \<Rightarrow> (Err err, w) | None \<Rightarrow>
     Do env odb performerEndpoint params w)"

definition GetPenaltiesByCode ::
  "'a env \<Rightarrow> 'c OdbClient \<Rightarrow> string \<Rightarrow> mapref \<Rightarrow> world \<Rightarrow> 'a result \<times> world" where
  "GetPenaltiesByCode env odb code params w =
     (case checkApiKey odb of Some err \<Rightarrow> (Err err, w) | None \<Rightarrow>
     (let endpoint = Sprintf penaltiesByCodeEndpoint [code] in
     Do env odb endpoint params w))"

definition GetPenaltyByNumber ::
  "'a env \<Rightarrow> 'c OdbClient \<Rightarrow> string \<Rightarrow> world \<Rightarrow> 'a result \<times> world" where
  "GetPenaltyByNumber env odb number w =
     (case checkApiKey odb of Some err \<Rightarrow> (Err err, w) | None \<Rightarrow>
     (let endpoint = Sprintf penaltyByNumberEndpoint [number] in
     (case map_literal [] w of (params, w1) \<Rightarrow>
     Do env odb endpoint params w1)))"

definition GetPenalties ::
  "'a env \<Rightarrow> 'c OdbClient \<Rightarrow> string \<Rightarrow> string \<Rightarrow> string \<Rightarrow> mapref \<Rightarrow> world \<Rightarrow> 'a result \<times> world" where
  "GetPenalties env odb firstName lastName birthDate params w =
     (case checkApiKey odb of Some err \<Rightarrow> (Err err, w) | None \<Rightarrow>
     (case map_assign params ''first_name'' firstName w of None \<Rightarrow> (Panic nil_map_panic, w) | Some w1 \<Rightarrow>
     (case map_assign params ''last_name'' lastName w1 of None \<Rightarrow> (Panic nil_map_panic, w1) | Some w2 \<Rightarrow>
     (case map_assign params ''birth_date'' birthDate w2 of None \<Rightarrow> (Panic nil_map_panic, w2) | Some w3 \<Rightarrow>
     Do env odb penaltiesEndpoint params w3))))"

definition GetKoatuuRegions ::
  "'a env \<Rightarrow> 'c OdbClient \<Rightarrow> world \<Rightarrow> 'a result \<times> world" where
  "GetKoatuuRegions env odb w =
     (case map_literal [] w of (params, w1) \<Rightarrow>
     Do env odb koatuuRegionsEndpoint params w1)"

definition GetKoatuuRegionsByCode ::
  "'a env \<Rightarrow> 'c OdbClient \<Rightarrow> string \<Rightarrow> world \<Rightarrow> 'a result \<times> world" where
  "GetKoatuuRegionsByCode env odb code w =
     (let endpoint = Sprintf koatuuRegionsByCodeEndpoint [code] in
     (case map_literal [] w of (params, w1) \<Rightarrow>
     Do env odb endpoint params w1))"

definition GetRealty ::
  "'a env \<Rightarrow> 'c OdbClient \<Rightarrow> string \<Rightarrow> mapref \<Rightarrow> world \<Rightarrow> 'a result \<times> world" where
  "GetRealty env odb code params w =
     (case checkApiKey odb of Some err \<Rightarrow> (Err err, w) | None \<Rightarrow>
     (case map_assign params ''code'' code w of None \<Rightarrow> (Panic nil_map_panic, w) | Some w1 \<Rightarrow>
     Do env odb realtyEndpoint params w1))"

definition GetRealtyById ::
  "'a env \<Rightarrow> 'c OdbClient \<Rightarrow> string \<Rightarrow> string \<Rightarrow> world \<Rightarrow> 'a result \<times> world" where
  "GetRealtyById env odb reportResultId id' w =
     (case checkApiKey odb of Some err \<Rightarrow> (Err err, w) | None \<Rightarrow>
     (let endpoint = Sprintf realtyByIdEndpoint [reportResultId, id'] in
     (case map_literal [] w of (params, w1) \<Rightarrow>
     Do env odb endpoint params w1)))"

definition GetRealtyResult ::
  "'a env \<Rightarrow> 'c OdbClient \<Rightarrow> string \<Rightarrow> world \<Rightarrow> 'a result \<times> world" where
  "GetRealtyResult env odb resultId w =
     (case checkApiKey odb of Some err \<Rightarrow> (Err err, w) | None \<Rightarrow>
     (case map_literal [(''resultId'', resultId)] w of (params, w1) \<Rightarrow>
     Do env odb realtyResultEndpoint params w1))"

definition GetRealtyReportByNumber ::
  "'a env \<Rightarrow> 'c OdbClient \<Rightarrow> string \<Rightarrow> world \<Rightarrow> 'a result \<times> world" where
  "GetRealtyReportByNumber env odb number w =
     (case checkApiKey odb of Some err \<Rightarrow> (Err err, w) | None \<Rightarrow>
     (let endpoint = Sprintf realtyReportByNumberEndpoint [number] in
     (case map_literal [] w of (params, w1) \<Rightarrow>
     Do env odb endpoint params w1)))"

definition GetTimeline ::
  "'a env \<Rightarrow> 'c OdbClient \<Rightarrow> mapref \<Rightarrow> world \<Rightarrow> 'a result \<times> world" where
  "GetTimeline env odb params w =
     (case checkApiKey odb of Some err \<Rightarrow> (Err err, w) | None \<Rightarrow>
     Do env odb timelineEndpoint params w)"

subsection \<open>The catalogue as one operation\<close>

text \<open>A call names an endpoint method and its arguments; \<open>invoke\<close> runs it.\<close>

datatype call =
    GetGovernmentCompany_call string
  | GetDpa_call string
  | GetCompany_call string
  | GetChanges_call string mapref
  | GetWagedebt_call string
  | GetAudit_call mapref
  | GetAuditById_call string
  | GetRegistrations_call mapref
  | GetRegistrationById_call string
  | GetInspections_call string
  | GetInspectionById_call string
  | GetPdf_call string
  | GetPermits_call mapref
  | GetSingletax_call mapref
  | GetVat_call mapref
  | GetCourt_call mapref
  | GetInstitutions_call mapref
  | GetCourtById_call string
  | GetSchedule_call mapref
  | GetAccused_call mapref
  | GetScheduleById_call string
  | GetCompanyCourts_call string
  | GetCompanyCourtsByType_call string string mapref
  | GetCourtCases_call string mapref
  | GetTransports_call mapref
  | GetTransportById_call string
  | GetTransportLicenses_call mapref
  | GetTransportLicensesById_call string
  | GetGenKey_call string string
  | GetStatistics_call
  | GetAliment_call string mapref
  | GetLawyers_call mapref
  | GetLawyerById_call string
  | GetCorruptOfficialsById_call string
  | GetCorruptOfficials_call string mapref
  | GetPassport_call string
  | GetWanted_call string mapref
  | GetFullPenaltyByNumber_call string mapref
  | GetFullPenaltyDocByNumber_call string string
  | GetFullPenalty_call mapref
  | GetPerformer_call mapref
  | GetPenaltiesByCode_call string mapref
  | GetPenaltyByNumber_call string
  | GetPenalties_call string string string mapref
  | GetKoatuuRegions_call
  | GetKoatuuRegionsByCode_call string
  | GetRealty_call string mapref
  | GetRealtyById_call string string
  | GetRealtyResult_call string
  | GetRealtyReportByNumber_call string
  | GetTimeline_call mapref

fun invoke :: "'a env \<Rightarrow> 'c OdbClient \<Rightarrow> call \<Rightarrow> world \<Rightarrow> 'a result \<times> world" where
  "invoke env odb (GetGovernmentCompany_call code) w = GetGovernmentCompany env odb code w"
| "invoke env odb (GetDpa_call code) w = GetDpa env odb code w"
| "invoke env odb (GetCompany_call code) w = GetCompany env odb code w"
| "invoke env odb (GetChanges_call code params) w = GetChanges env odb code params w"
| "invoke env odb (GetWagedebt_call code) w = GetWagedebt env odb code w"
| "invoke env odb (GetAudit_call params) w = GetAudit env odb params w"
| "invoke env odb (GetAuditById_call id') w = GetAuditById env odb id' w"
| "invoke env odb (GetRegistrations_call params) w = GetRegistrations env odb params w"
| "invoke env odb (GetRegistrationById_call id') w = GetRegistrationById env odb id' w"
| "invoke env odb (GetInspections_call code) w = GetInspections env odb code w"
| "invoke env odb (GetInspectionById_call id') w = GetInspectionById env odb id' w"
| "invoke env odb (GetPdf_call code) w = GetPdf env odb code w"
| "invoke env odb (GetPermits_call params) w = GetPermits env odb params w"
| "invoke env odb (GetSingletax_call params) w = GetSingletax env odb params w"
| "invoke env odb (GetVat_call params) w = GetVat env odb params w"
| "invoke env odb (GetCourt_call params) w = GetCourt env odb params w"
| "invoke env odb (GetInstitutions_call params) w = GetInstitutions env odb params w"
| "invoke env odb (GetCourtById_call id') w = GetCourtById env odb id' w"
| "invoke env odb (GetSchedule_call params) w = GetSchedule env odb params w"
| "invoke env odb (GetAccused_call params) w = GetAccused env odb params w"
| "invoke env odb (GetScheduleById_call id') w = GetScheduleById env odb id' w"
| "invoke env odb (GetCompanyCourts_call code) w = GetCompanyCourts env odb code w"
| "invoke env odb (GetCompanyCourtsByType_call courtsType code params) w = GetCompanyCourtsByType env odb courtsType code params w"
| "invoke env odb (GetCourtCases_call number params) w = GetCourtCases env odb number params w"
| "invoke env odb (GetTransports_call params) w = GetTransports env odb params w"
| "invoke env odb (GetTransportById_call id') w = GetTransportById env odb id' w"
| "invoke env odb (GetTransportLicenses_call params) w = GetTransportLicenses env odb params w"
| "invoke env odb (GetTransportLicensesById_call id') w = GetTransportLicensesById env odb id' w"
| "invoke env odb (GetGenKey_call salt id') w = GetGenKey env odb salt id' w"
| "invoke env odb GetStatistics_call w = GetStatistics env odb w"
| "invoke env odb (GetAliment_call pib params) w = GetAliment env odb pib params w"
| "invoke env odb (GetLawyers_call params) w = GetLawyers env odb params w"
| "invoke env odb (GetLawyerById_call id') w = GetLawyerById env odb id' w"
| "invoke env odb (GetCorruptOfficialsById_call id') w = GetCorruptOfficialsById env odb id' w"
| "invoke env odb (GetCorruptOfficials_call pib params) w = GetCorruptOfficials env odb pib params w"
| "invoke env odb (GetPassport_call number) w = GetPassport env odb number w"
| "invoke env odb (GetWanted_call pib params) w = GetWanted env odb pib params w"
| "invoke env odb (GetFullPenaltyByNumber_call number params) w = GetFullPenaltyByNumber env odb number params w"
| "invoke env odb (GetFullPenaltyDocByNumber_call number secret) w = GetFullPenaltyDocByNumber env odb number secret w"
| "invoke env odb (GetFullPenalty_call params) w = GetFullPenalty env odb params w"
| "invoke env odb (GetPerformer_call params) w = GetPerformer env odb params w"
| "invoke env odb (GetPenaltiesByCode_call code params) w = GetPenaltiesByCode env odb code params w"
| "invoke env odb (GetPenaltyByNumber_call number) w = GetPenaltyByNumber env odb number w"
| "invoke env odb (GetPenalties_call firstName lastName birthDate params) w = GetPenalties env odb firstName lastName birthDate params w"
| "invoke env odb GetKoatuuRegions_call w = GetKoatuuRegions env odb w"
| "invoke env odb (GetKoatuuRegionsByCode_call code) w = GetKoatuuRegionsByCode env odb code w"
| "invoke env odb (GetRealty_call code params) w = GetRealty env odb code params w"
| "invoke env odb (GetRealtyById_call reportResultId id') w = GetRealtyById env odb reportResultId id' w"
| "invoke env odb (GetRealtyResult_call resultId) w = GetRealtyResult env odb resultId w"
| "invoke env odb (GetRealtyReportByNumber_call number) w = GetRealtyReportByNumber env odb number w"
| "invoke env odb (GetTimeline_call params) w = GetTimeline env odb params w"

text \<open>
  Four readings of the catalogue, taken from the bodies of the methods: whether the
  method calls \<open>checkApiKey\<close>, which argument it passes to \<open>checkNotEmpty\<close>, which
  arguments it substitutes into its URL template with \<open>Sprintf\<close>, and which map of the
  caller's it hands to \<open>Do\<close>.
\<close>

definition requires_credential :: "call \<Rightarrow> bool" where
  "requires_credential c =
     (case c of
        GetInstitutions_call _ \<Rightarrow> False
      | GetKoatuuRegions_call \<Rightarrow> False
      | GetKoatuuRegionsByCode_call _ \<Rightarrow> False
      | _ \<Rightarrow> True)"

definition checked_identifier :: "call \<Rightarrow> string option" where
  "checked_identifier c =
     (case c of
        GetGovernmentCompany_call code \<Rightarrow> Some code
      | GetDpa_call code \<Rightarrow> Some code
      | GetCompany_call code \<Rightarrow> Some code
      | GetChanges_call code _ \<Rightarrow> Some code
      | GetWagedebt_call code \<Rightarrow> Some code
      | GetAuditById_call id' \<Rightarrow> Some id'
      | GetRegistrationById_call id' \<Rightarrow> Some id'
      | GetInspections_call code \<Rightarrow> Some code
      | GetInspectionById_call id' \<Rightarrow> Some id'
      | GetPdf_call code \<Rightarrow> Some code
      | _ \<Rightarrow> None)"

definition path_identifiers :: "call \<Rightarrow> string list" where
  "path_identifiers c =
     (case c of
        GetDpa_call code \<Rightarrow> [code]
      | GetCompany_call code \<Rightarrow> [code]
      | GetChanges_call code _ \<Rightarrow> [code]
      | GetWagedebt_call code \<Rightarrow> [code]
      | GetAuditById_call id' \<Rightarrow> [id']
      | GetRegistrationById_call id' \<Rightarrow> [id']
      | GetInspectionById_call id' \<Rightarrow> [id']
      | GetPdf_call code \<Rightarrow> [code]
      | GetCourtById_call id' \<Rightarrow> [id']
      | GetScheduleById_call id' \<Rightarrow> [id']
      | GetCompanyCourtsByType_call courtsType _ _ \<Rightarrow> [courtsType]
      | GetCourtCases_call number _ \<Rightarrow> [number]
      | GetTransportById_call id' \<Rightarrow> [id']
      | GetTransportLicensesById_call id' \<Rightarrow> [id']
      | GetLawyerById_call id' \<Rightarrow> [id']
      | GetCorruptOfficialsById_call id' \<Rightarrow> [id']
      | GetFullPenaltyByNumber_call number _ \<Rightarrow> [number]
      | GetFullPenaltyDocByNumber_call number _ \<Rightarrow> [number]
      | GetPenaltiesByCode_call code _ \<Rightarrow> [code]
      | GetPenaltyByNumber_call number \<Rightarrow> [number]
      | GetKoatuuRegionsByCode_call code \<Rightarrow> [code]
      | GetRealtyById_call reportResultId id' \<Rightarrow> [reportResultId, id']
      | GetRealtyReportByNumber_call number \<Rightarrow> [number]
      | _ \<Rightarrow> [])"

definition caller_params :: "call \<Rightarrow> mapref option" where
  "caller_params c =
     (case c of
        GetChanges_call _ params \<Rightarrow> Some params
      | GetAudit_call params \<Rightarrow> Some params
      | GetRegistrations_call params \<Rightarrow> Some params
      | GetPermits_call params \<Rightarrow> Some params
      | GetSingletax_call params \<Rightarrow> Some params
      | GetVat_call params \<Rightarrow> Some params
      | GetCourt_call params \<Rightarrow> Some params
      | GetInstitutions_call params \<Rightarrow> Some params
      | GetSchedule_call params \<Rightarrow> Some params
      | GetAccused_call params \<Rightarrow> Some params
      | GetCompanyCourtsByType_call _ _ params \<Rightarrow> Some params
      | GetCourtCases_call _ params \<Rightarrow> Some params
      | GetTransports_call params \<Rightarrow> Some params
      | GetTransportLicenses_call params \<Rightarrow> Some params
      | GetAliment_call _ params \<Rightarrow> Some params
      | GetLawyers_call params \<Rightarrow> Some params
      | GetCorruptOfficials_call _ params \<Rightarrow> Some params
      | GetWanted_call _ params \<Rightarrow> Some params
      | GetFullPenaltyByNumber_call _ params \<Rightarrow> Some params
      | GetFullPenalty_call params \<Rightarrow> Some params
      | GetPerformer_call params \<Rightarrow> Some params
      | GetPenaltiesByCode_call _ params \<Rightarrow> Some params
      | GetPenalties_call _ _ _ params \<Rightarrow> Some params
      | GetRealty_call _ params \<Rightarrow> Some params
      | GetTimeline_call params \<Rightarrow> Some params
      | _ \<Rightarrow> None)"

section \<open>Reading a query string back\<close>

text \<open>
  What a reader of the query string finds: the string is split at \<open>&\<close>, each component at
  its first \<open>=\<close>, and both sides are unescaped (\<open>+\<close> is a space, \<open>%XX\<close> a byte). An empty
  component, a component with a semicolon and a component that does not unescape give
  no pair. This is how \<open>url.ParseQuery\<close> reads a query, with the pairs kept in order.
  \<open>pairs_of\<close> lists the pairs of a \<open>url.Values\<close> by sorted key, and \<open>join_amp\<close> joins
  strings with \<open>&\<close>.
\<close>

fun join_amp :: "string list \<Rightarrow> string" where
  "join_amp [] = []"
| "join_amp [x] = x"
| "join_amp (x # y # xs) = x @ CHR ''&'' # join_amp (y # xs)"

definition encode_pair :: "string \<times> string \<Rightarrow> string" where
  "encode_pair p = QueryEscape (fst p) @ ''='' @ QueryEscape (snd p)"

definition pairs_of :: "Values \<Rightarrow> (string \<times> string) list" where
  "pairs_of v = concat (map (\<lambda>k. map (Pair k) (Values_Get v k)) (sort (map fst v)))"

fun split_on :: "char \<Rightarrow> string \<Rightarrow> string list" where
  "split_on sep [] = [[]]"
| "split_on sep (c # s) =
     (if c = sep then [] # split_on sep s
      else (case split_on sep s of [] \<Rightarrow> [[c]] | x # xs \<Rightarrow> (c # x) # xs))"

definition cut :: "char \<Rightarrow> string \<Rightarrow> string \<times> string" where
  "cut sep s = (takeWhile (\<lambda>c. c \<noteq> sep) s, drop 1 (dropWhile (\<lambda>c. c \<noteq> sep) s))"

definition unhex :: "char \<Rightarrow> nat option" where
  "unhex c =
     (let n = (of_char c :: nat) in
      if 48 \<le> n \<and> n \<le> 57 then Some (n - 48)
      else if 97 \<le> n \<and> n \<le> 102 then Some (n - 97 + 10)
      else if 65 \<le> n \<and> n \<le> 70 then Some (n - 65 + 10)
      else None)"

fun QueryUnescape :: "string \<Rightarrow> string option" where
  "QueryUnescape [] = Some []"
| "QueryUnescape (c # s) =
     (if c = CHR ''%'' then
        (case s of
           a # b # s' \<Rightarrow>
             (case (unhex a, unhex b) of
                (Some x, Some y) \<Rightarrow> map_option ((#) (char_of (16 * x + y))) (QueryUnescape s')
              | _ \<Rightarrow> None)
         | _ \<Rightarrow> None)
      else map_option ((#) (if c = CHR ''+'' then CHR '' '' else c)) (QueryUnescape s))"

definition query_pairs :: "string \<Rightarrow> (string \<times> string) list" where
  "query_pairs q =
     concat (map (\<lambda>comp.
        if comp = [] \<or> CHR '';'' \<in> set comp then []
        else (case cut CHR ''='' comp of
                (k, v) \<Rightarrow>
                  (case (QueryUnescape k, QueryUnescape v) of
                     (Some k', Some v') \<Rightarrow> [(k', v')]
                   | _ \<Rightarrow> [])))
       (split_on CHR ''&'' q))"

section \<open>Reading a template\<close>


definition extra_suffix :: "string list \<Rightarrow> string" where
  "extra_suffix a = (if a = [] then [] else ''%!(EXTRA '' @ extra_args a @ '')'')"



section \<open>Decoding a response into \<open>GovernmentCompany\<close>\<close>

text \<open>
  \<open>json.Unmarshal\<close> first checks the syntax of the whole text and then binds the JSON value
  to the target. The reader of the text is a parameter; the binding is modelled for the
  target \<open>*GovernmentCompany\<close>, on the JSON value. A number keeps its literal.

  The binding follows \<open>encoding/json\<close>: an object is read member by member into the struct
  as it stands; a key selects the field whose name it equals up to case (Unicode simple
  folding: the long s and the Kelvin sign fold to \<open>s\<close> and \<open>k\<close>); a key that selects no field
  is skipped; \<open>null\<close> leaves a string, an integer and a struct as they are and makes a slice
  or a pointer nil; a string field takes a JSON string, an \<open>int\<close> field (64 bits) an integer
  literal in range, anything else is an \<open>UnmarshalTypeError\<close>. An array is read into the
  slice as it stands: element \<open>i\<close> is decoded into the element already at index \<open>i\<close> of the
  backing array, or into a fresh zero element; elements a shorter array left behind stay
  in the backing array (\<open>stale\<close>), where a later, longer array finds them; an empty array
  gives a fresh empty slice. The nil slice and the empty slice are both \<open>[]\<close>.
\<close>

datatype json =
    JNull
  | JBool bool
  | JNumber string
  | JString string
  | JArray "json list"
  | JObject "(string \<times> json) list"

record GovernmentCompany_Item =
  Code :: string

record GovernmentCompany_Data =
  Count :: int
  Items :: "GovernmentCompany_Item list"


definition zero_Item :: GovernmentCompany_Item where
  "zero_Item = \<lparr>Code = []\<rparr>"

definition zero_Data :: GovernmentCompany_Data where
  "zero_Data = \<lparr>Count = 0, Items = []\<rparr>"


fun fold_key :: "string \<Rightarrow> string" where
  "fold_key [] = []"
| "fold_key (c # s) =
     (let n = (of_char c :: nat) in
      if n = 197 \<and> map of_char (take 1 s) = [191 :: nat] then CHR ''s'' # fold_key (tl s)
      else if n = 226 \<and> map of_char (take 2 s) = [132, 170 :: nat] then CHR ''k'' # fold_key (tl (tl s))
      else (if 65 \<le> n \<and> n \<le> 90 then char_of (n + 32) else c) # fold_key s)"

definition type_error :: error where
  "type_error = json_Error ''UnmarshalTypeError''"


definition decode_string :: "json \<Rightarrow> string \<Rightarrow> error + string" where
  "decode_string j cur =
     (case j of JString s \<Rightarrow> Inr s | JNull \<Rightarrow> Inr cur | _ \<Rightarrow> Inl type_error)"

definition is_digit :: "char \<Rightarrow> bool" where
  "is_digit c = (48 \<le> (of_char c :: nat) \<and> (of_char c :: nat) \<le> 57)"

definition digits_value :: "string \<Rightarrow> int" where
  "digits_value ds = fold (\<lambda>c n. 10 * n + (of_char c - 48)) ds 0"

definition ParseInt :: "string \<Rightarrow> int option" where
  "ParseInt s =
     (let neg = (take 1 s = ''-'');
          ds = (if take 1 s = ''-'' \<or> take 1 s = ''+'' then drop 1 s else s);
          n = (if neg then - digits_value ds else digits_value ds)
      in if ds = [] \<or> \<not> list_all is_digit ds then None
         else if - (2 ^ 63) \<le> n \<and> n < 2 ^ 63 then Some n
         else None)"

definition decode_int :: "json \<Rightarrow> int \<Rightarrow> error + int" where
  "decode_int j cur =
     (case j of
        JNumber lit \<Rightarrow> (case ParseInt lit of Some n \<Rightarrow> Inr n | None \<Rightarrow> Inl type_error)
      | JNull \<Rightarrow> Inr cur
      | _ \<Rightarrow> Inl type_error)"

fun decode_members ::
  "(string \<Rightarrow> json \<Rightarrow> 'a \<Rightarrow> error + 'a) \<Rightarrow> (string \<times> json) list \<Rightarrow> 'a \<Rightarrow> error + 'a" where
  "decode_members field [] cur = Inr cur"
| "decode_members field ((key, j) # ms) cur =
     (case field (fold_key key) j cur of
        Inl err \<Rightarrow> Inl err
      | Inr cur' \<Rightarrow> decode_members field ms cur')"

definition decode_struct ::
  "(string \<Rightarrow> json \<Rightarrow> 'a \<Rightarrow> error + 'a) \<Rightarrow> json \<Rightarrow> 'a \<Rightarrow> error + 'a" where
  "decode_struct field j cur =
     (case j of
        JObject ms \<Rightarrow> decode_members field ms cur
      | JNull \<Rightarrow> Inr cur
      | _ \<Rightarrow> Inl type_error)"

definition Item_field ::
  "string \<Rightarrow> json \<Rightarrow> GovernmentCompany_Item \<Rightarrow> error + GovernmentCompany_Item" where
  "Item_field name j cur =
     (if name = ''code''
      then (case decode_string j (Code cur) of Inl err \<Rightarrow> Inl err | Inr s \<Rightarrow> Inr (cur\<lparr>Code := s\<rparr>))
      else Inr cur)"

fun decode_elements ::
  "json list \<Rightarrow> GovernmentCompany_Item list \<Rightarrow> error + GovernmentCompany_Item list" where
  "decode_elements [] backing = Inr []"
| "decode_elements (j # js) backing =
     (case decode_struct Item_field j (case backing of [] \<Rightarrow> zero_Item | b # _ \<Rightarrow> b) of
        Inl err \<Rightarrow> Inl err
      | Inr x \<Rightarrow>
          (case decode_elements js (drop 1 backing) of
             Inl err \<Rightarrow> Inl err
           | Inr xs \<Rightarrow> Inr (x # xs)))"

definition decode_Items ::
  "json \<Rightarrow> GovernmentCompany_Item list \<times> GovernmentCompany_Item list
     \<Rightarrow> error + GovernmentCompany_Item list \<times> GovernmentCompany_Item list" where
  "decode_Items j cur =
     (case j of
        JArray js \<Rightarrow>
          (if js = [] then Inr ([], [])
           else (case decode_elements js (fst cur @ snd cur) of
                   Inl err \<Rightarrow> Inl err
                 | Inr xs \<Rightarrow> Inr (xs, drop (length js) (fst cur @ snd cur))))
      | JNull \<Rightarrow> Inr ([], [])
      | _ \<Rightarrow> Inl type_error)"

definition Data_field ::
  "string \<Rightarrow> json \<Rightarrow> GovernmentCompany_Data \<times> GovernmentCompany_Item list
     \<Rightarrow> error + GovernmentCompany_Data \<times> GovernmentCompany_Item list" where
  "Data_field name j cur =
     (if name = ''count''
      then (case decode_int j (Count (fst cur)) of
              Inl err \<Rightarrow> Inl err
            | Inr n \<Rightarrow> Inr ((fst cur)\<lparr>Count := n\<rparr>, snd cur))
      else if name = ''items''
      then (case decode_Items j (Items (fst cur), snd cur) of
              Inl err \<Rightarrow> Inl err
            | Inr (xs, stale) \<Rightarrow> Inr ((fst cur)\<lparr>Items := xs\<rparr>, stale))
      else Inr cur)"










subsection \<open>What a payload mentions\<close>













section \<open>A test double for the libraries\<close>

text \<open>
  The worked examples run the client against stand-ins: a URL parser that splits off the
  fragment and the query and accepts every string, a transport that answers every request
  with the same response, and the status-text table of the library.
\<close>

definition example_Parse :: "string \<Rightarrow> error + URL" where
  "example_Parse s =
     (case cut CHR ''#'' s of
        (u, frag) \<Rightarrow>
          (case cut CHR ''?'' u of
             (front, q) \<Rightarrow>
               Inr \<lparr>BeforeQuery = front, ForceQuery = False, RawQuery = q, EscapedFragment = frag\<rparr>))"

definition mock_env :: "Response \<Rightarrow> (string \<Rightarrow> error + 'a) \<Rightarrow> 'a env" where
  "mock_env resp unmarshal =
     \<lparr>url_Parse = example_Parse,
      http_Get = (\<lambda>history uri. Inr resp),
      StatusText = http_StatusText,
      json_Unmarshal = unmarshal\<rparr>"

definition empty_world :: world where
  "empty_world = \<lparr>requests = [], heap = (\<lambda>a. []), next_addr = 0\<rparr>"

definition client_with_key :: "string \<Rightarrow> unit OdbClient" where
  "client_with_key k = \<lparr>Settings = \<lparr>ApiKey = k, Client = None\<rparr>\<rparr>"

definition example_world :: world where
  "example_world =
     \<lparr>requests = [],
      heap = (\<lambda>a. [])(0 := [(''code'', ''31325005''), (''apiKey'', ''theirs'')]),
      next_addr = 1\<rparr>"

text \<open>
  A reader of JSON texts for the examples: objects, arrays, strings of printable ASCII
  without escapes, integer literals, \<open>true\<close>, \<open>false\<close> and \<open>null\<close>; it reads nothing else.
\<close>

datatype token =
    LBrace | RBrace | LBracket | RBracket | Colon | Comma
  | TString string | TNumber string | TWord string





definition integer_literal :: "string \<Rightarrow> bool" where
  "integer_literal l =
     (let ds = (if take 1 l = ''-'' then drop 1 l else l)
      in ds \<noteq> [] \<and> list_all is_digit ds \<and> (take 1 ds = ''0'' \<longrightarrow> ds = ''0''))"

fun parse_value :: "nat \<Rightarrow> token list \<Rightarrow> (json \<times> token list) option"
  and parse_members :: "nat \<Rightarrow> token list \<Rightarrow> ((string \<times> json) list \<times> token list) option"
  and parse_elements :: "nat \<Rightarrow> token list \<Rightarrow> (json list \<times> token list) option" where
  "parse_value 0 ts = None"
| "parse_value (Suc n) ts =
     (case ts of
        TString s # r \<Rightarrow> Some (JString s, r)
      | TNumber l # r \<Rightarrow> if integer_literal l then Some (JNumber l, r) else None
      | TWord w # r \<Rightarrow>
          if w = ''null'' then Some (JNull, r)
          else if w = ''true'' then Some (JBool True, r)
          else if w = ''false'' then Some (JBool False, r)
          else None
      | LBrace # r \<Rightarrow>
          (case r of
             RBrace # r' \<Rightarrow> Some (JObject [], r')
           | _ \<Rightarrow> (case parse_members n r of None \<Rightarrow> None | Some (ms, r') \<Rightarrow> Some (JObject ms, r')))
      | LBracket # r \<Rightarrow>
          (case r of
             RBracket # r' \<Rightarrow> Some (JArray [], r')
           | _ \<Rightarrow> (case parse_elements n r of None \<Rightarrow> None | Some (js, r') \<Rightarrow> Some (JArray js, r')))
      | _ \<Rightarrow> None)"
| "parse_members 0 ts = None"
| "parse_members (Suc n) ts =
     (case ts of
        TString k # Colon # r \<Rightarrow>
          (case parse_value n r of
             None \<Rightarrow> None
           | Some (v, r') \<Rightarrow>
               (case r' of
                  Comma # r'' \<Rightarrow>
                    (case parse_members n r'' of
                       None \<Rightarrow> None
                     | Some (ms, r3) \<Rightarrow> Some ((k, v) # ms, r3))
                | RBrace # r'' \<Rightarrow> Some ([(k, v)], r'')
                | _ \<Rightarrow> None))
      | _ \<Rightarrow> None)"
| "parse_elements 0 ts = None"
| "parse_elements (Suc n) ts =
     (case parse_value n ts of
        None \<Rightarrow> None
      | Some (v, r') \<Rightarrow>
          (case r' of
             Comma # r'' \<Rightarrow>
               (case parse_elements n r'' of
                  None \<Rightarrow> None
                | Some (js, r3) \<Rightarrow> Some (v # js, r3))
           | RBracket # r'' \<Rightarrow> Some ([v], r'')
           | _ \<Rightarrow> None))"



section \<open>Properties of the configuration\<close>

lemma apply_options_append:
  "apply_options (xs @ ys) s =
     (case apply_options xs s of Inl panic \<Rightarrow> Inl panic | Inr s' \<Rightarrow> apply_options ys s')"
  by (induction xs arbitrary: s) (simp_all split: sum.splits)

lemma apply_options_keys:
  "apply_options (map withApiKey ks) s
     = Inr (s\<lparr>ApiKey := (if ks = [] then ApiKey s else last ks)\<rparr>)"
  by (induction ks arbitrary: s) simp_all

lemma apply_options_returns:
  assumes "\<forall>opt\<in>set options. \<forall>s. \<exists>s'. Apply opt s = Inr s'"
  shows "\<exists>s'. apply_options options s = Inr s'"
  using assms
proof (induction options arbitrary: s)
  case Nil
  show ?case by simp
next
  case (Cons opt options)
  from Cons.prems have "\<exists>s1. Apply opt s = Inr s1" by simp
  then obtain s1 where "Apply opt s = Inr s1" ..
  with Cons show ?case by simp
qed

text \<open>
  Claim C7. \<open>ApplySettings\<close> never returns an error. When every option's \<open>Apply\<close> returns
  (no option is nil, no foreign \<open>Apply\<close> panics) it returns settings. The options are applied
  in order, starting from the zero-valued settings of the empty list: the settings of
  \<open>options @ [opt]\<close> are those of \<open>options\<close> with \<open>opt\<close> applied, so a later \<open>withApiKey\<close>
  overrides the credential that the earlier options left, and \<open>NewOdbClient\<close> wraps the
  same settings. For the options of the package the credential is the last key given
  (the empty string for the empty list) and the transport handle stays unset.
\<close>

theorem ApplySettings_last_write_wins:
  "(ApplySettings options :: 'c Settings result) \<noteq> Err e
   \<and> ((\<forall>opt\<in>set options. \<forall>s :: 'c Settings. \<exists>s'. Apply opt s = Inr s')
        \<longrightarrow> (\<exists>s :: 'c Settings. ApplySettings options = Ok s))
   \<and> (ApplySettings options = Ok s \<longrightarrow>
        ApplySettings (options @ [opt]) = (case Apply opt s of Inl panic \<Rightarrow> Panic panic | Inr s' \<Rightarrow> Ok s')
        \<and> ApplySettings (options @ [withApiKey k]) = Ok (s\<lparr>ApiKey := k\<rparr>)
        \<and> NewOdbClient options = Ok \<lparr>Settings = s\<rparr>)
   \<and> (ApplySettings (map withApiKey ks) :: 'c Settings result)
        = Ok \<lparr>ApiKey = (if ks = [] then [] else last ks), Client = None\<rparr>
   \<and> (ApplySettings [] :: 'c Settings result) = Ok \<lparr>ApiKey = [], Client = None\<rparr>"
proof -
  have a: "(ApplySettings options :: 'c Settings result) \<noteq> Err e"
    by (simp add: ApplySettings_def split: sum.splits)
  have b: "(\<forall>opt\<in>set options. \<forall>s :: 'c Settings. \<exists>s'. Apply opt s = Inr s')
        \<longrightarrow> (\<exists>s :: 'c Settings. ApplySettings options = Ok s)"
  proof
    assume "\<forall>opt\<in>set options. \<forall>s :: 'c Settings. \<exists>s'. Apply opt s = Inr s'"
    then obtain s' :: "'c Settings" where "apply_options options zero_Settings = Inr s'"
      using apply_options_returns [of options zero_Settings] by auto
    then show "\<exists>s :: 'c Settings. ApplySettings options = Ok s"
      by (simp add: ApplySettings_def)
  qed
  have c: "ApplySettings options = Ok s \<longrightarrow>
        ApplySettings (options @ [opt]) = (case Apply opt s of Inl panic \<Rightarrow> Panic panic | Inr s' \<Rightarrow> Ok s')
        \<and> ApplySettings (options @ [withApiKey k]) = Ok (s\<lparr>ApiKey := k\<rparr>)
        \<and> NewOdbClient options = Ok \<lparr>Settings = s\<rparr>"
    by (simp add: ApplySettings_def NewOdbClient_def apply_options_append split: sum.splits)
  have d: "(ApplySettings (map withApiKey ks) :: 'c Settings result)
        = Ok \<lparr>ApiKey = (if ks = [] then [] else last ks), Client = None\<rparr>"
    by (simp add: ApplySettings_def apply_options_keys zero_Settings_def)
  have e: "(ApplySettings [] :: 'c Settings result) = Ok \<lparr>ApiKey = [], Client = None\<rparr>"
    by (simp add: ApplySettings_def zero_Settings_def)
  from a b c d e show ?thesis by blast
qed

theorem ApplySettings_last_write_wins_witness:
  "list_all (\<lambda>opt. opt \<noteq> nil_Option)
     [withApiKey ''first'', foreign_Option (\<lambda>s. Inr (s\<lparr>Client := Some ()\<rparr>)), withApiKey ''K'']
   \<and> ApplySettings [withApiKey ''first'', foreign_Option (\<lambda>s. Inr (s\<lparr>Client := Some ()\<rparr>))]
        = Ok \<lparr>ApiKey = ''first'', Client = Some ()\<rparr>
   \<and> ApplySettings [withApiKey ''first'', foreign_Option (\<lambda>s. Inr (s\<lparr>Client := Some ()\<rparr>)),
                     withApiKey ''K'']
        = Ok \<lparr>ApiKey = ''K'', Client = Some ()\<rparr>
   \<and> NewOdbClient [withApiKey ''first'', foreign_Option (\<lambda>s. Inr (s\<lparr>Client := Some ()\<rparr>))]
        = Ok \<lparr>Settings = \<lparr>ApiKey = ''first'', Client = Some ()\<rparr>\<rparr>
   \<and> (ApplySettings [WithApiKey ''a'', WithApiKey ''b''] :: unit Settings result)
        = Ok \<lparr>ApiKey = ''b'', Client = None\<rparr>"
proof -
  let ?opts = "[withApiKey ''first'', foreign_Option (\<lambda>s. Inr (s\<lparr>Client := Some ()\<rparr>))]"
  have run: "ApplySettings ?opts = Ok \<lparr>ApiKey = ''first'', Client = Some ()\<rparr>"
    by (simp add: ApplySettings_def zero_Settings_def)
  have two: "(ApplySettings (map withApiKey [''a'', ''b'']) :: unit Settings result)
        = Ok \<lparr>ApiKey = ''b'', Client = None\<rparr>"
    using ApplySettings_last_write_wins [where ks = "[''a'', ''b'']" and 'c = unit] by simp
  have returns: "\<forall>opt\<in>set (?opts @ [withApiKey ''K'']). \<forall>s :: unit Settings. \<exists>s'. Apply opt s = Inr s'"
    by simp
  with ApplySettings_last_write_wins [of "?opts @ [withApiKey ''K'']"]
  obtain s3 where built: "ApplySettings (?opts @ [withApiKey ''K'']) = Ok s3"
    by blast
  have last: "ApplySettings (?opts @ [withApiKey ''K'']) = Ok \<lparr>ApiKey = ''K'', Client = Some ()\<rparr>
      \<and> NewOdbClient ?opts = Ok \<lparr>Settings = \<lparr>ApiKey = ''first'', Client = Some ()\<rparr>\<rparr>"
    using ApplySettings_last_write_wins
            [of ?opts _ "\<lparr>ApiKey = ''first'', Client = Some ()\<rparr>" "withApiKey ''K''" "''K''"] run
    by simp
  from run two built last show ?thesis
    by (simp add: WithApiKey_def)
qed

text \<open>
  A nil option among the options: the loop calls \<open>Apply\<close> on it and the call panics, so
  neither settings nor a client are returned.
\<close>

theorem ApplySettings_nil_option_panics:
  "(ApplySettings [withApiKey ''K'', nil_Option] :: unit Settings result) = Panic nil_pointer_panic
   \<and> (NewOdbClient [nil_Option] :: unit OdbClient result) = Panic nil_pointer_panic"
  by (simp add: ApplySettings_def NewOdbClient_def)

section \<open>Properties of the endpoint resolver\<close>




lemma Sprintf_end: "Sprintf [] a = extra_suffix a"
  by (simp add: extra_suffix_def)




text \<open>
  Every \<open>Sprintf\<close> call of the catalogue passes as many arguments as its template has
  slots, so each resolves to the template with the identifiers in place.
\<close>

lemma catalogue_templates_resolve:
  "Sprintf dpaEndpoint [x] = ''https://opendatabot.com/api/v2/dpa/'' @ x
   \<and> Sprintf companyEndpoint [x] = ''https://opendatabot.com/api/v2/company/'' @ x
   \<and> Sprintf changesEndpoint [x] = ''https://opendatabot.com/api/v2/changed/'' @ x
   \<and> Sprintf wagedebtEndpoint [x] = ''https://opendatabot.com/api/v2/wagedebt/'' @ x
   \<and> Sprintf auditByIdEndpoint [x] = ''https://opendatabot.com/api/v2/audit/'' @ x
   \<and> Sprintf registrationByIdEndpoint [x] = ''https://opendatabot.com/api/v2/registrations/'' @ x
   \<and> Sprintf inspectionByIdEndpoint [x] = ''https://opendatabot.com/api/v2/inspections/'' @ x
   \<and> Sprintf pdfEndpoint [x] = ''https://opendatabot.com/api/v2/pdf/'' @ x
   \<and> Sprintf courtByIdEndpoint [x] = ''https://opendatabot.com/api/v2/court/'' @ x
   \<and> Sprintf scheduleByIdEndpoint [x] = ''https://opendatabot.com/api/v2/schedule/'' @ x
   \<and> Sprintf companyCourtsByTypeEndpoint [x] = ''https://opendatabot.com/api/v2/company-courts/'' @ x
   \<and> Sprintf courtCasesEndpoint [x] = ''https://opendatabot.com/api/v2/court-cases/'' @ x
   \<and> Sprintf transportByIdEndpoint [x] = ''https://opendatabot.com/api/v2/transport/'' @ x
   \<and> Sprintf transportLicensesByIdEndpoint [x] = ''https://opendatabot.com/api/v2/transport-licenses/'' @ x
   \<and> Sprintf lawyersByIdEndpoint [x] = ''https://opendatabot.com/api/v2/lawyers/'' @ x
   \<and> Sprintf corruptOfficialsByIdEndpoint [x] = ''https://opendatabot.com/api/v2/corrupt-officials/'' @ x
   \<and> Sprintf fullPenaltyByNumberEndpoint [x] = ''https://opendatabot.com/api/v2/full-penalty/'' @ x
   \<and> Sprintf fullPenaltyDocByNumberEndpoint [x] = ''https://opendatabot.com/api/v2/full-penalty-doc/'' @ x
   \<and> Sprintf penaltiesByCodeEndpoint [x] = ''https://opendatabot.com/api/v2/penalties/'' @ x
   \<and> Sprintf penaltyByNumberEndpoint [x] = ''https://opendatabot.com/api/v2/penalty/'' @ x
   \<and> Sprintf koatuuRegionsByCodeEndpoint [x] = ''https://opendatabot.com/api/v2/koatuu/regions/'' @ x
   \<and> Sprintf realtyByIdEndpoint [x, y] = ''https://opendatabot.com/api/v2/realty/'' @ x @ ''/'' @ y
   \<and> Sprintf realtyReportByNumberEndpoint [x] = ''https://opendatabot.com/api/v2/realty-report/'' @ x"
  by (simp add:
      dpaEndpoint_def companyEndpoint_def changesEndpoint_def wagedebtEndpoint_def
      auditByIdEndpoint_def registrationByIdEndpoint_def inspectionByIdEndpoint_def
      pdfEndpoint_def courtByIdEndpoint_def scheduleByIdEndpoint_def
      companyCourtsByTypeEndpoint_def courtCasesEndpoint_def transportByIdEndpoint_def
      transportLicensesByIdEndpoint_def lawyersByIdEndpoint_def
      corruptOfficialsByIdEndpoint_def fullPenaltyByNumberEndpoint_def
      fullPenaltyDocByNumberEndpoint_def penaltiesByCodeEndpoint_def
      penaltyByNumberEndpoint_def koatuuRegionsByCodeEndpoint_def realtyByIdEndpoint_def
      realtyReportByNumberEndpoint_def)

section \<open>Properties of the query encoder\<close>

lemma upperhex_table:
  "list_all (\<lambda>n. unhex (upperhex n) = Some n
      \<and> upperhex n \<noteq> CHR ''&'' \<and> upperhex n \<noteq> CHR ''='' \<and> upperhex n \<noteq> CHR '';'') [0..<16]"
  by code_simp

lemma upperhex_unhex: "n < 16 \<Longrightarrow> unhex (upperhex n) = Some n"
  using upperhex_table by (simp add: list_all_iff)

lemma shouldEscape_special:
  "\<not> shouldEscape c \<Longrightarrow> c \<noteq> CHR ''%'' \<and> c \<noteq> CHR ''+'' \<and> c \<noteq> CHR ''&'' \<and> c \<noteq> CHR ''='' \<and> c \<noteq> CHR '';''"
  by (auto simp: shouldEscape_def)

lemma char_split16: "char_of (16 * (of_char c div 16) + of_char c mod 16 :: nat) = c"
  by simp

lemma QueryUnescape_QueryEscape: "QueryUnescape (QueryEscape s) = Some s"
proof (induction s)
  case Nil
  show ?case by simp
next
  case (Cons c s)
  have d: "(of_char c :: nat) div 16 < 16"
    using nat_of_char_less_256 [of c] by (simp add: less_mult_imp_div_less)
  show ?case
    using Cons shouldEscape_special [of c] d
    by (auto simp: upperhex_unhex)
qed

lemma upperhex_not_special:
  "n < 16 \<Longrightarrow> upperhex n \<notin> {CHR ''&'', CHR ''='', CHR '';''}"
  using upperhex_table by (simp add: list_all_iff)

lemma QueryEscape_no_special:
  "CHR ''&'' \<notin> set (QueryEscape s) \<and> CHR ''='' \<notin> set (QueryEscape s) \<and> CHR '';'' \<notin> set (QueryEscape s)"
proof (induction s)
  case Nil
  show ?case by simp
next
  case (Cons c s)
  have d: "(of_char c :: nat) div 16 < 16"
    using nat_of_char_less_256 [of c] by (simp add: less_mult_imp_div_less)
  have m: "(of_char c :: nat) mod 16 < 16" by simp
  show ?case
    using Cons shouldEscape_special [of c] upperhex_not_special [OF d] upperhex_not_special [OF m]
    by auto
qed


lemma fold_write_pair:
  "fold (write_pair ke) xs buf =
   fold (\<lambda>p b. (if b \<noteq> [] then b @ ''&'' else b) @ p) (map (\<lambda>x. ke @ ''='' @ QueryEscape x) xs) buf"
  by (induction xs arbitrary: buf) (simp_all add: write_pair_def)

lemma fold_buffer_join:
  "\<forall>p\<in>set ps. p \<noteq> [] \<Longrightarrow>
   fold (\<lambda>p b. (if b \<noteq> [] then b @ ''&'' else b) @ p) ps buf =
   (if buf = [] then join_amp ps else if ps = [] then buf else buf @ CHR ''&'' # join_amp ps)"
proof (induction ps arbitrary: buf)
  case Nil
  show ?case by simp
next
  case (Cons p ps)
  then have p: "p \<noteq> []" and rest: "\<forall>p\<in>set ps. p \<noteq> []" by simp_all
  let ?b = "(if buf \<noteq> [] then buf @ ''&'' else buf) @ p"
  have b: "?b \<noteq> []" using p by simp
  have "fold (\<lambda>p b. (if b \<noteq> [] then b @ ''&'' else b) @ p) ps ?b =
      (if ps = [] then ?b else ?b @ CHR ''&'' # join_amp ps)"
    using Cons.IH [OF rest, of ?b] b by simp
  then show ?case by (cases ps) simp_all
qed

lemma fold_keys_concat:
  "fold (\<lambda>k buf. fold (write_pair (QueryEscape k)) (g k) buf) ks buf =
   fold (\<lambda>p b. (if b \<noteq> [] then b @ ''&'' else b) @ p)
     (concat (map (\<lambda>k. map (\<lambda>x. encode_pair (k, x)) (g k)) ks)) buf"
  by (induction ks arbitrary: buf) (simp_all add: fold_write_pair encode_pair_def)

lemma encode_pair_nonempty: "encode_pair p \<noteq> []"
  by (simp add: encode_pair_def)

lemma Values_Encode_join: "Values_Encode v = join_amp (map encode_pair (pairs_of v))"
proof -
  have eq: "map encode_pair (pairs_of v) =
      concat (map (\<lambda>k. map (\<lambda>x. encode_pair (k, x)) (Values_Get v k)) (sort (map fst v)))"
    by (simp add: pairs_of_def map_concat comp_def)
  have ne: "\<forall>p\<in>set (map encode_pair (pairs_of v)). p \<noteq> []"
    by (simp add: encode_pair_nonempty)
  show ?thesis
  proof (cases "v = []")
    case True
    then show ?thesis by (simp add: Values_Encode_def pairs_of_def)
  next
    case False
    then have "Values_Encode v =
        fold (\<lambda>p b. (if b \<noteq> [] then b @ ''&'' else b) @ p) (map encode_pair (pairs_of v)) []"
      by (simp add: Values_Encode_def fold_keys_concat eq)
    also have "\<dots> = join_amp (map encode_pair (pairs_of v))"
      using fold_buffer_join [OF ne, of "[]"] by simp
    finally show ?thesis .
  qed
qed

lemma split_on_nonempty: "split_on sep s \<noteq> []"
  by (induction s) (auto split: list.splits)

lemma split_on_none: "sep \<notin> set p \<Longrightarrow> split_on sep p = [p]"
  by (induction p) auto

lemma split_on_append: "sep \<notin> set p \<Longrightarrow> split_on sep (p @ sep # s) = p # split_on sep s"
  by (induction p) auto

lemma split_on_join:
  "\<forall>p\<in>set ps. CHR ''&'' \<notin> set p \<Longrightarrow> ps \<noteq> [] \<Longrightarrow> split_on CHR ''&'' (join_amp ps) = ps"
proof (induction ps rule: join_amp.induct)
  case 1
  then show ?case by simp
next
  case (2 x)
  then show ?case by (simp add: split_on_none)
next
  case (3 x y xs)
  then show ?case by (simp add: split_on_append)
qed

lemma cut_encode_pair: "cut CHR ''='' (encode_pair (k, v)) = (QueryEscape k, QueryEscape v)"
proof -
  have "\<forall>c\<in>set (QueryEscape k). c \<noteq> CHR ''=''"
    using QueryEscape_no_special [of k] by auto
  then show ?thesis
    by (simp add: cut_def encode_pair_def takeWhile_append2 dropWhile_append2)
qed

lemma encode_pair_chars:
  "CHR ''&'' \<notin> set (encode_pair p) \<and> CHR '';'' \<notin> set (encode_pair p)"
  using QueryEscape_no_special [of "fst p"] QueryEscape_no_special [of "snd p"]
  by (simp add: encode_pair_def)

lemma query_pairs_join: "query_pairs (join_amp (map encode_pair ps)) = ps"
proof (cases "ps = []")
  case True
  then show ?thesis by (simp add: query_pairs_def)
next
  case False
  have "split_on CHR ''&'' (join_amp (map encode_pair ps)) = map encode_pair ps"
    using False by (intro split_on_join) (simp_all add: encode_pair_chars)
  moreover have "concat (map (\<lambda>comp.
        if comp = [] \<or> CHR '';'' \<in> set comp then []
        else (case cut CHR ''='' comp of
                (k, v) \<Rightarrow>
                  (case (QueryUnescape k, QueryUnescape v) of
                     (Some k', Some v') \<Rightarrow> [(k', v')]
                   | _ \<Rightarrow> []))) (map encode_pair qs)) = qs" for qs
    by (induction qs)
      (auto simp: encode_pair_nonempty encode_pair_chars cut_encode_pair QueryUnescape_QueryEscape)
  ultimately show ?thesis by (simp add: query_pairs_def)
qed

lemma query_pairs_Encode: "query_pairs (Values_Encode v) = pairs_of v"
  by (simp add: Values_Encode_join query_pairs_join)

lemma update_fresh: "k \<notin> fst ` set q \<Longrightarrow> AList.update k v q = q @ [(k, v)]"
  by (induction q) auto

lemma Values_Add_fresh: "k \<notin> fst ` set q \<Longrightarrow> Values_Add k x q = q @ [(k, [x])]"
proof -
  assume k: "k \<notin> fst ` set q"
  then have "map_of q k = None" by (simp add: map_of_eq_None_iff)
  then show ?thesis using k by (simp add: Values_Add_def Values_Get_def update_fresh)
qed

lemma fold_Values_Add:
  "distinct (map fst m) \<Longrightarrow> fst ` set m \<inter> fst ` set q = {} \<Longrightarrow>
   fold (\<lambda>(key, value). Values_Add key value) m q = q @ map (\<lambda>(k, x). (k, [x])) m"
proof (induction m arbitrary: q)
  case Nil
  show ?case by simp
next
  case (Cons p m)
  obtain k x where p: "p = (k, x)" by (cases p)
  have fresh: "k \<notin> fst ` set q" using Cons.prems p by auto
  have d: "distinct (map fst m)" using Cons.prems by simp
  have disj: "fst ` set m \<inter> fst ` set (q @ [(k, [x])]) = {}"
    using Cons.prems p by auto
  show ?case
    using Cons.IH [OF d disj] by (simp add: p Values_Add_fresh [OF fresh])
qed

lemma insort_key_map_key:
  "(\<And>k. f (g k) = k) \<Longrightarrow> insort_key f (g k) (map g ks) = map g (insort k ks)"
  by (induction ks) simp_all

lemma sort_key_map_key:
  "(\<And>k. f (g k) = k) \<Longrightarrow> sort_key f (map g ks) = map g (sort ks)"
  by (induction ks) (simp_all add: insort_key_map_key)

lemma pairs_of_singletons:
  assumes "distinct (map fst m)"
  shows "pairs_of (map (\<lambda>(k, x). (k, [x])) m) = sort_key fst m"
proof -
  let ?v = "map (\<lambda>(k, x). (k, [x])) m"
  let ?g = "\<lambda>k. (k, the (map_of m k))"
  have keys: "map fst ?v = map fst m" by (induction m) auto
  have get: "Values_Get ?v k = [the (map_of m k)]" if "k \<in> fst ` set m" for k
  proof -
    have "map_of m k \<noteq> None" using that by (simp add: map_of_eq_None_iff)
    then obtain x where "map_of m k = Some x" by blast
    then show ?thesis by (simp add: Values_Get_def map_of_map)
  qed
  have one: "concat (map (\<lambda>k. map (Pair k) (Values_Get ?v k)) ks) = map ?g ks"
    if "set ks \<subseteq> fst ` set m" for ks
    using that by (induction ks) (simp_all add: get)
  have recover: "map ?g (map fst ps) = ps" if "set ps \<subseteq> set m" for ps
    using that assms by (induction ps) auto
  have "pairs_of ?v = map ?g (sort (map fst m))"
    unfolding pairs_of_def keys by (rule one) simp
  also have "\<dots> = sort_key fst (map ?g (map fst m))"
    by (rule sort_key_map_key [symmetric]) simp
  also have "\<dots> = sort_key fst m"
    using recover [of m] by simp
  finally show ?thesis .
qed

lemma query_of_params:
  assumes "distinct (map fst m)"
  shows "query_pairs (Values_Encode (fold (\<lambda>(key, value). Values_Add key value) m [])) = sort_key fst m"
  using fold_Values_Add [OF assms, of "[]"] pairs_of_singletons [OF assms]
  by (simp add: query_pairs_Encode)

lemma filter_update_key:
  "distinct (map fst m) \<Longrightarrow> filter (\<lambda>p. fst p = k) (AList.update k v m) = [(k, v)]"
proof (induction m)
  case Nil
  show ?case by simp
next
  case (Cons p m)
  show ?case
  proof (cases "fst p = k")
    case True
    then have "k \<notin> fst ` set m" using Cons.prems by auto
    then have "filter (\<lambda>p. fst p = k) m = []" by (auto simp: filter_empty_conv)
    then show ?thesis using True by simp
  next
    case False
    then show ?thesis using Cons by simp
  qed
qed

lemma buildQueryParams_ok:
  "parse endpoint = Inr u \<Longrightarrow>
   buildQueryParams parse endpoint params =
     Inr (URL_String (u\<lparr>RawQuery := Values_Encode (fold (\<lambda>(key, value). Values_Add key value) params [])\<rparr>))"
  by (simp add: buildQueryParams_def)

text \<open>
  Claim C8. A key that the params map binds to the empty string is still in the encoded
  query: the URL that \<open>buildQueryParams\<close> returns has, between \<open>?\<close> and the fragment, a
  query with the component \<open>key=\<close>, which reads back as the pair of the key and the empty
  string.
\<close>

theorem buildQueryParams_keeps_empty_values:
  assumes member: "(k, []) \<in> set params"
    and wf: "distinct (map fst params)"
    and parse: "parse endpoint = Inr u"
  shows "\<exists>q. buildQueryParams parse endpoint params
               = Inr (BeforeQuery u @ ''?'' @ q
                      @ (if EscapedFragment u \<noteq> [] then ''#'' @ EscapedFragment u else []))
           \<and> QueryEscape k @ ''='' \<in> set (split_on CHR ''&'' q)
           \<and> (k, []) \<in> set (query_pairs q)"
proof -
  let ?v = "fold (\<lambda>(key, value). Values_Add key value) params []"
  let ?q = "Values_Encode ?v"
  have pairs: "pairs_of ?v = sort_key fst params"
    using fold_Values_Add [OF wf, of "[]"] pairs_of_singletons [OF wf] by simp
  have mem: "(k, []) \<in> set (pairs_of ?v)" using member by (simp add: pairs)
  then have ne: "map encode_pair (pairs_of ?v) \<noteq> []" by auto
  have "split_on CHR ''&'' ?q = map encode_pair (pairs_of ?v)"
    unfolding Values_Encode_join using ne
    by (intro split_on_join) (simp_all add: encode_pair_chars)
  moreover have "encode_pair (k, []) = QueryEscape k @ ''=''" by (simp add: encode_pair_def)
  ultimately have comp: "QueryEscape k @ ''='' \<in> set (split_on CHR ''&'' ?q)"
    using mem by force
  have readback: "(k, []) \<in> set (query_pairs ?q)"
    using mem by (simp add: query_pairs_Encode)
  have "?q \<noteq> []"
  proof
    assume "?q = []"
    then have "split_on CHR ''&'' ?q = [[]]" by simp
    with comp show False by simp
  qed
  then have "buildQueryParams parse endpoint params
      = Inr (BeforeQuery u @ ''?'' @ ?q
             @ (if EscapedFragment u \<noteq> [] then ''#'' @ EscapedFragment u else []))"
    using parse by (simp add: buildQueryParams_ok URL_String_def)
  with comp readback show ?thesis by blast
qed

theorem buildQueryParams_keeps_empty_values_witness:
  "buildQueryParams example_Parse governmentCompaniesEndpoint [(''name'', ''x''), (''code'', [])]
     = Inr ''https://opendatabot.com/api/v2/government-companies?code=&name=x''
   \<and> (\<exists>q. buildQueryParams example_Parse governmentCompaniesEndpoint [(''name'', ''x''), (''code'', [])]
             = Inr (''https://opendatabot.com/api/v2/government-companies'' @ ''?'' @ q @ [])
          \<and> QueryEscape ''code'' @ ''='' \<in> set (split_on CHR ''&'' q)
          \<and> (''code'', []) \<in> set (query_pairs q))"
proof -
  let ?m = "[(''name'', ''x''), (''code'', [])]"
  let ?u = "\<lparr>BeforeQuery = ''https://opendatabot.com/api/v2/government-companies'',
                    ForceQuery = False, RawQuery = [], EscapedFragment = []\<rparr>"
  have member: "(''code'', []) \<in> set ?m" by simp
  have wf: "distinct (map fst ?m)" by simp
  have parse: "example_Parse governmentCompaniesEndpoint = Inr ?u" by code_simp
  have run: "buildQueryParams example_Parse governmentCompaniesEndpoint ?m
     = Inr ''https://opendatabot.com/api/v2/government-companies?code=&name=x''"
    by code_simp
  from buildQueryParams_keeps_empty_values
         [of "''code''" ?m example_Parse governmentCompaniesEndpoint ?u, OF member wf parse] run
  show ?thesis
    by simp
qed

section \<open>Properties of the request executor\<close>

lemma map_assign_requests: "map_assign m k v w = Some w1 \<Longrightarrow> requests w1 = requests w"
  by (cases m) (auto simp: map_assign_def)

lemma prepare_requests:
  "(if c then map_assign m k v w else Some w) = Some w1 \<Longrightarrow> requests w1 = requests w"
  by (cases c) (auto dest: map_assign_requests)

lemma Do_panics:
  "(if ApiKey (Settings odb) \<noteq> []
    then map_assign params ''apiKey'' (ApiKey (Settings odb)) w else Some w) = None
   \<Longrightarrow> Do env odb endpoint params w = (Panic nil_map_panic, w)"
  by (simp add: Do_def)

lemma Do_parse_error:
  "(if ApiKey (Settings odb) \<noteq> []
    then map_assign params ''apiKey'' (ApiKey (Settings odb)) w else Some w) = Some w1
   \<Longrightarrow> buildQueryParams (url_Parse env) endpoint (map_entries params w1) = Inl err
   \<Longrightarrow> Do env odb endpoint params w = (Err err, w1)"
  by (simp add: Do_def)

lemma Do_sends:
  "(if ApiKey (Settings odb) \<noteq> []
    then map_assign params ''apiKey'' (ApiKey (Settings odb)) w else Some w) = Some w1
   \<Longrightarrow> buildQueryParams (url_Parse env) endpoint (map_entries params w1) = Inr uri
   \<Longrightarrow> Do env odb endpoint params w =
      (case http_Get env (requests w1) uri of
         Inl err \<Rightarrow> Err err
       | Inr resp \<Rightarrow>
           if StatusCode resp \<noteq> StatusOK
           then Err (errors_New (StatusText env (StatusCode resp)))
           else (case Body resp of
                   Inl err \<Rightarrow> Err err
                 | Inr body \<Rightarrow>
                     (case json_Unmarshal env body of Inl err \<Rightarrow> Err err | Inr v \<Rightarrow> Ok v)),
       w1\<lparr>requests := requests w1 @ [uri]\<rparr>)"
  by (simp add: Do_def Let_def split: sum.splits)

lemma distinct_update_keys:
  "distinct (map fst m) \<Longrightarrow> distinct (map fst (AList.update k v m))"
  by (simp add: distinct_update)

lemma Do_with_key:
  assumes key: "ApiKey (Settings odb) \<noteq> []"
  shows "(if ApiKey (Settings odb) \<noteq> []
          then map_assign (Ref a) ''apiKey'' (ApiKey (Settings odb)) w else Some w)
       = Some (w\<lparr>heap := (heap w)(a := AList.update ''apiKey'' (ApiKey (Settings odb)) (heap w a))\<rparr>)"
  using key by (simp add: map_assign_def)

lemma http_StatusText_unlisted:
  "code \<notin> fst ` set status_table \<Longrightarrow> http_StatusText code = []"
proof -
  assume "code \<notin> fst ` set status_table"
  then have "map_of status_table code = None" by (simp add: map_of_eq_None_iff)
  then show ?thesis by (simp add: http_StatusText_def)
qed

text \<open>
  Claim C5. Whenever \<open>Do\<close> has sent a request and the transport answers it with a status
  other than 200, \<open>Do\<close> returns \<open>errors.New(http.StatusText(status))\<close>, whatever the body of
  the response is and whatever \<open>json.Unmarshal\<close> would do with it: the body is neither read
  nor decoded, and no value is returned. The message of the error is the text that the
  table gives for the status, which is the empty string for every status that
  \<open>http.StatusText\<close> does not list.
\<close>

theorem Do_status_not_OK:
  assumes sent: "requests (snd (Do env odb endpoint params w)) = requests w @ [uri]"
    and answer: "http_Get env (requests w) uri = Inr \<lparr>StatusCode = code, Body = body\<rparr>"
    and status: "code \<noteq> 200"
  shows "fst (Do (env\<lparr>json_Unmarshal := unmarshal\<rparr>) odb endpoint params w)
           = Err (errors_New (StatusText env code))
         \<and> (StatusText env = http_StatusText \<longrightarrow> code \<notin> fst ` set status_table \<longrightarrow>
              fst (Do (env\<lparr>json_Unmarshal := unmarshal\<rparr>) odb endpoint params w)
                = Err (errors_New []))"
proof -
  let ?prep = "if ApiKey (Settings odb) \<noteq> []
    then map_assign params ''apiKey'' (ApiKey (Settings odb)) w else Some w"
  let ?env = "env\<lparr>json_Unmarshal := unmarshal\<rparr>"
  have main: "fst (Do ?env odb endpoint params w) = Err (errors_New (StatusText env code))"
  proof (cases ?prep)
    case None
    from Do_panics [OF None, of env endpoint] sent show ?thesis by simp
  next
    case (Some w1)
    have rq: "requests w1 = requests w" by (rule prepare_requests [OF Some])
    show ?thesis
    proof (cases "buildQueryParams (url_Parse env) endpoint (map_entries params w1)")
      case (Inl err)
      from Do_parse_error [OF Some Inl] sent rq show ?thesis by simp
    next
      case (Inr u)
      from Do_sends [OF Some Inr] sent rq have u: "u = uri" by simp
      have b: "buildQueryParams (url_Parse ?env) endpoint (map_entries params w1) = Inr uri"
        using Inr u by simp
      from Do_sends [of odb params w w1 ?env endpoint uri, OF Some b] rq answer status
      show ?thesis by (simp add: StatusOK_def)
    qed
  qed
  then show ?thesis by (simp add: http_StatusText_unlisted)
qed

theorem Do_status_not_OK_witness:
  "fst (Do (mock_env \<lparr>StatusCode = 404, Body = Inr ''{error: no such company}''\<rparr> Inr)
          (client_with_key ''K'') governmentCompaniesEndpoint (Ref 0) empty_world)
     = (Err (errors_New ''Not Found'') :: string result)
   \<and> fst (Do (mock_env \<lparr>StatusCode = 520, Body = Inr ''unknown error''\<rparr> Inr)
          (client_with_key ''K'') governmentCompaniesEndpoint (Ref 0) empty_world)
     = (Err (errors_New []) :: string result)"
proof -
  let ?uri = "''https://opendatabot.com/api/v2/government-companies?apiKey=K''"
  let ?r1 = "\<lparr>StatusCode = 404, Body = Inr ''{error: no such company}''\<rparr>"
  let ?e1 = "mock_env ?r1 Inr :: string env"
  have sent1: "requests (snd (Do ?e1 (client_with_key ''K'') governmentCompaniesEndpoint (Ref 0) empty_world))
      = requests empty_world @ [?uri]"
    by code_simp
  have answer1: "http_Get ?e1 (requests empty_world) ?uri = Inr ?r1"
    by (simp add: mock_env_def)
  have keep1: "?e1\<lparr>json_Unmarshal := Inr\<rparr> = ?e1" by (simp add: mock_env_def)
  have text1: "StatusText ?e1 404 = ''Not Found''"
    by (simp add: mock_env_def http_StatusText_def status_table_def)
  have first: "fst (Do ?e1 (client_with_key ''K'') governmentCompaniesEndpoint (Ref 0) empty_world)
      = Err (errors_New ''Not Found'')"
    using Do_status_not_OK [OF sent1 answer1, of Inr] keep1 text1 by simp
  let ?r2 = "\<lparr>StatusCode = 520, Body = Inr ''unknown error''\<rparr>"
  let ?e2 = "mock_env ?r2 Inr :: string env"
  have sent2: "requests (snd (Do ?e2 (client_with_key ''K'') governmentCompaniesEndpoint (Ref 0) empty_world))
      = requests empty_world @ [?uri]"
    by code_simp
  have answer2: "http_Get ?e2 (requests empty_world) ?uri = Inr ?r2"
    by (simp add: mock_env_def)
  have keep2: "?e2\<lparr>json_Unmarshal := Inr\<rparr> = ?e2" by (simp add: mock_env_def)
  have table2: "StatusText ?e2 = http_StatusText" by (simp add: mock_env_def)
  have unlisted: "(520 :: int) \<notin> fst ` set status_table" by (simp add: status_table_def)
  have status2: "(520 :: int) \<noteq> 200" by simp
  have second: "fst (Do ?e2 (client_with_key ''K'') governmentCompaniesEndpoint (Ref 0) empty_world)
      = Err (errors_New [])"
    using Do_status_not_OK [OF sent2 answer2 status2, THEN conjunct2, rule_format,
                             OF table2 unlisted, of Inr]
    by (simp only: keep2)
  from first second show ?thesis by simp
qed

text \<open>
  The error does not hold the status. The statuses 520 and 999 are not in the table of
  \<open>http.StatusText\<close>: the two responses give the same error, with an empty message.
\<close>

theorem Do_error_drops_status:
  "fst (Do (mock_env \<lparr>StatusCode = 520, Body = Inr ''unknown error''\<rparr> Inr)
          (client_with_key ''K'') governmentCompaniesEndpoint (Ref 0) empty_world)
     = (Err (errors_New []) :: string result)
   \<and> fst (Do (mock_env \<lparr>StatusCode = 999, Body = Inr ''request denied''\<rparr> Inr)
          (client_with_key ''K'') governmentCompaniesEndpoint (Ref 0) empty_world)
     = (Err (errors_New []) :: string result)
   \<and> http_StatusText 520 = [] \<and> http_StatusText 999 = []"
  by code_simp

text \<open>
  Claim C1. With a non-empty credential, every URL that \<open>Do\<close> requests, for any params
  map (with or without an \<open>apiKey\<close> entry of the caller's), is the parsed endpoint with a
  query that reads back with exactly one pair under the key \<open>apiKey\<close>, whose value is the
  configured credential. (\<open>Do\<close> requests no URL when the map is nil, where it panics, and
  when \<open>url.Parse\<close> refuses the endpoint.)
\<close>

theorem Do_apiKey_exactly_once:
  assumes key: "ApiKey (Settings odb) \<noteq> []"
    and wf: "distinct (map fst (map_entries params w))"
    and sent: "requests (snd (Do env odb endpoint params w)) = requests w @ [uri]"
  shows "\<exists>u q. url_Parse env endpoint = Inr u
           \<and> uri = URL_String (u\<lparr>RawQuery := q\<rparr>)
           \<and> filter (\<lambda>p. fst p = ''apiKey'') (query_pairs q)
               = [(''apiKey'', ApiKey (Settings odb))]"
proof (cases params)
  case nil
  then have "Do env odb endpoint params w = (Panic nil_map_panic, w)"
    using key by (intro Do_panics) (simp add: map_assign_def)
  with sent show ?thesis by simp
next
  case (Ref a)
  let ?m = "AList.update ''apiKey'' (ApiKey (Settings odb)) (heap w a)"
  let ?w1 = "w\<lparr>heap := (heap w)(a := ?m)\<rparr>"
  let ?q = "Values_Encode (fold (\<lambda>(key, value). Values_Add key value) ?m [])"
  have prep: "(if ApiKey (Settings odb) \<noteq> []
          then map_assign params ''apiKey'' (ApiKey (Settings odb)) w else Some w) = Some ?w1"
    unfolding Ref by (rule Do_with_key [OF key])
  have entries: "map_entries params ?w1 = ?m" by (simp add: Ref map_entries_def)
  have wf': "distinct (map fst (heap w a))" using wf by (simp add: Ref map_entries_def)
  show ?thesis
  proof (cases "url_Parse env endpoint")
    case (Inl err)
    then have "buildQueryParams (url_Parse env) endpoint (map_entries params ?w1) = Inl err"
      by (simp add: buildQueryParams_def)
    from Do_parse_error [OF prep this] sent show ?thesis by simp
  next
    case (Inr u)
    then have built: "buildQueryParams (url_Parse env) endpoint (map_entries params ?w1)
        = Inr (URL_String (u\<lparr>RawQuery := ?q\<rparr>))"
      unfolding entries by (simp add: buildQueryParams_ok)
    from Do_sends [OF prep built] sent have uri: "uri = URL_String (u\<lparr>RawQuery := ?q\<rparr>)"
      by simp
    have d: "distinct (map fst ?m)" by (rule distinct_update_keys [OF wf'])
    have "filter (\<lambda>p. fst p = ''apiKey'') (query_pairs ?q)
        = sort_key fst (filter (\<lambda>p. fst p = ''apiKey'') ?m)"
      by (simp add: query_of_params [OF d] filter_sort)
    also have "\<dots> = [(''apiKey'', ApiKey (Settings odb))]"
      by (simp add: filter_update_key [OF wf'])
    finally show ?thesis using Inr uri by blast
  qed
qed

theorem Do_apiKey_exactly_once_witness:
  "requests (snd (Do (mock_env \<lparr>StatusCode = 200, Body = Inr ''{}''\<rparr> (Inr :: string \<Rightarrow> error + string))
      (client_with_key ''K'') governmentCompaniesEndpoint (Ref 0) example_world))
     = [''https://opendatabot.com/api/v2/government-companies?apiKey=K&code=31325005'']
   \<and> query_pairs ''apiKey=K&code=31325005'' = [(''apiKey'', ''K''), (''code'', ''31325005'')]
   \<and> (\<exists>u q. example_Parse governmentCompaniesEndpoint = Inr u
          \<and> ''https://opendatabot.com/api/v2/government-companies?apiKey=K&code=31325005''
              = URL_String (u\<lparr>RawQuery := q\<rparr>)
          \<and> filter (\<lambda>p. fst p = ''apiKey'') (query_pairs q) = [(''apiKey'', ''K'')])"
proof -
  let ?env = "mock_env \<lparr>StatusCode = 200, Body = Inr ''{}''\<rparr> (Inr :: string \<Rightarrow> error + string)"
  let ?uri = "''https://opendatabot.com/api/v2/government-companies?apiKey=K&code=31325005''"
  have key: "ApiKey (Settings (client_with_key ''K'')) \<noteq> []"
    by (simp add: client_with_key_def)
  have wf: "distinct (map fst (map_entries (Ref 0) example_world))"
    by (simp add: example_world_def map_entries_def)
  have run: "requests (snd (Do ?env (client_with_key ''K'') governmentCompaniesEndpoint (Ref 0) example_world))
     = [?uri]"
    by code_simp
  then have sent: "requests (snd (Do ?env (client_with_key ''K'') governmentCompaniesEndpoint (Ref 0) example_world))
     = requests example_world @ [?uri]"
    by (simp add: example_world_def)
  have rd: "query_pairs ''apiKey=K&code=31325005'' = [(''apiKey'', ''K''), (''code'', ''31325005'')]"
    by code_simp
  have k: "ApiKey (Settings (client_with_key ''K'')) = ''K''"
    by (simp add: client_with_key_def)
  have p: "url_Parse ?env = example_Parse" by (simp add: mock_env_def)
  from Do_apiKey_exactly_once [OF key wf sent] run rd show ?thesis
    unfolding k p by blast
qed

text \<open>
  Claim C9, as the code has it. With a non-empty credential and a params map that is not
  nil, \<open>Do\<close> changes the caller's map and nothing else in the store: after the call,
  whatever it returns, the map binds \<open>apiKey\<close> to the configured credential and every
  other key as before.
\<close>

theorem Do_mutates_params:
  assumes key: "ApiKey (Settings odb) \<noteq> []"
  shows "heap (snd (Do env odb endpoint (Ref a) w))
           = (heap w)(a := AList.update ''apiKey'' (ApiKey (Settings odb)) (heap w a))
       \<and> map_of (heap (snd (Do env odb endpoint (Ref a) w)) a)
           = (map_of (heap w a))(''apiKey'' \<mapsto> ApiKey (Settings odb))"
proof -
  let ?m = "AList.update ''apiKey'' (ApiKey (Settings odb)) (heap w a)"
  let ?w1 = "w\<lparr>heap := (heap w)(a := ?m)\<rparr>"
  have "heap (snd (Do env odb endpoint (Ref a) w)) = (heap w)(a := ?m)"
  proof (cases "buildQueryParams (url_Parse env) endpoint (map_entries (Ref a) ?w1)")
    case (Inl err)
    from Do_parse_error [OF Do_with_key [OF key] Inl] show ?thesis by simp
  next
    case (Inr uri)
    from Do_sends [OF Do_with_key [OF key] Inr] show ?thesis by simp
  qed
  then show ?thesis by (simp add: update_conv')
qed

theorem Do_mutates_params_witness:
  "heap (snd (Do (mock_env \<lparr>StatusCode = 200, Body = Inr ''{}''\<rparr> (Inr :: string \<Rightarrow> error + string))
      (client_with_key ''K'') governmentCompaniesEndpoint (Ref 0) example_world)) 0
     = [(''code'', ''31325005''), (''apiKey'', ''K'')]
   \<and> map_of (heap example_world 0) ''apiKey'' = Some ''theirs''
   \<and> map_of (heap (snd (Do (mock_env \<lparr>StatusCode = 200, Body = Inr ''{}''\<rparr> (Inr :: string \<Rightarrow> error + string))
      (client_with_key ''K'') governmentCompaniesEndpoint (Ref 0) example_world)) 0) ''apiKey''
     = Some ''K''"
proof -
  let ?env = "mock_env \<lparr>StatusCode = 200, Body = Inr ''{}''\<rparr> (Inr :: string \<Rightarrow> error + string)"
  have key: "ApiKey (Settings (client_with_key ''K'')) \<noteq> []"
    by (simp add: client_with_key_def)
  from Do_mutates_params [OF key, of ?env governmentCompaniesEndpoint 0 example_world]
  show ?thesis
    by (simp add: client_with_key_def example_world_def)
qed

text \<open>
  A nil map is a value of the parameter's type too. With a credential, \<open>Do\<close> panics on the
  assignment: no map holds a binding for \<open>apiKey\<close> afterwards, and no request is made.
\<close>

theorem Do_nil_params_panics:
  "ApiKey (Settings (client_with_key ''K'')) \<noteq> []
   \<and> Do (mock_env \<lparr>StatusCode = 200, Body = Inr ''{}''\<rparr> (Inr :: string \<Rightarrow> error + string))
        (client_with_key ''K'') governmentCompaniesEndpoint nil empty_world
      = (Panic ''assignment to entry in nil map'', empty_world)
   \<and> map_entries nil empty_world = []"
  by (simp add: Do_def client_with_key_def map_assign_def map_entries_def nil_map_panic_def)

section \<open>Properties of the response decoder\<close>



lemma decode_members_missing:
  assumes keep: "\<And>name j cur cur'. name \<noteq> n \<Longrightarrow> field name j cur = Inr cur' \<Longrightarrow> get cur' = get cur"
    and absent: "\<forall>m\<in>set ms. fold_key (fst m) \<noteq> n"
    and ok: "decode_members field ms cur = Inr cur'"
  shows "get cur' = get cur"
  using absent ok
proof (induction ms arbitrary: cur)
  case Nil
  then show ?case by simp
next
  case (Cons m ms)
  obtain key j where m: "m = (key, j)" by (cases m)
  from Cons.prems obtain mid where step: "field (fold_key key) j cur = Inr mid"
    and rest: "decode_members field ms mid = Inr cur'"
    by (auto simp: m split: sum.splits)
  have "fold_key key \<noteq> n" using Cons.prems by (simp add: m)
  then have "get mid = get cur" using step by (rule keep)
  moreover have "get cur' = get mid" using Cons.IH [OF _ rest] Cons.prems by simp
  ultimately show ?case by simp
qed
















lemma missing_count:
  assumes "decode_struct Data_field (JObject ds) (zero_Data, []) = Inr (d, stale)"
    and "\<forall>m\<in>set ds. fold_key (fst m) \<noteq> ''count''"
  shows "Count d = 0"
proof -
  from assms(1) have ok: "decode_members Data_field ds (zero_Data, []) = Inr (d, stale)"
    by (simp add: decode_struct_def)
  have keep: "Count (fst cur') = Count (fst cur)"
    if "name \<noteq> ''count''" and "Data_field name j cur = Inr cur'" for name j cur cur'
    using that by (auto simp: Data_field_def split: if_splits sum.splits)
  from decode_members_missing [of "''count''" Data_field "\<lambda>c. Count (fst c)", OF keep assms(2) ok]
  show ?thesis by (simp add: zero_Data_def)
qed

lemma missing_items:
  assumes "decode_struct Data_field (JObject ds) (zero_Data, []) = Inr (d, stale)"
    and "\<forall>m\<in>set ds. fold_key (fst m) \<noteq> ''items''"
  shows "Items d = []"
proof -
  from assms(1) have ok: "decode_members Data_field ds (zero_Data, []) = Inr (d, stale)"
    by (simp add: decode_struct_def)
  have keep: "Items (fst cur') = Items (fst cur)"
    if "name \<noteq> ''items''" and "Data_field name j cur = Inr cur'" for name j cur cur'
    using that by (auto simp: Data_field_def split: if_splits sum.splits)
  from decode_members_missing [of "''items''" Data_field "\<lambda>c. Items (fst c)", OF keep assms(2) ok]
  show ?thesis by (simp add: zero_Data_def)
qed

lemma missing_code:
  assumes "decode_struct Item_field (JObject cs) zero_Item = Inr i"
    and "\<forall>m\<in>set cs. fold_key (fst m) \<noteq> ''code''"
  shows "Code i = []"
proof -
  from assms(1) have ok: "decode_members Item_field cs zero_Item = Inr i"
    by (simp add: decode_struct_def)
  have "Code i = Code zero_Item"
    by (rule decode_members_missing [where field = Item_field and n = "''code''", OF _ assms(2) ok])
       (auto simp: Item_field_def split: if_splits sum.splits)
  then show ?thesis by (simp add: zero_Item_def)
qed












subsection \<open>When decoding succeeds\<close>











subsection \<open>What a field keeps when no member selects it\<close>














section \<open>Properties of the endpoint catalogue\<close>

lemmas catalogue_defs =
  GetGovernmentCompany_def GetDpa_def GetCompany_def GetChanges_def GetWagedebt_def
  GetAudit_def GetAuditById_def GetRegistrations_def GetRegistrationById_def
  GetInspections_def GetInspectionById_def GetPdf_def GetPermits_def GetSingletax_def
  GetVat_def GetCourt_def GetInstitutions_def GetCourtById_def GetSchedule_def
  GetAccused_def GetScheduleById_def GetCompanyCourts_def GetCompanyCourtsByType_def
  GetCourtCases_def GetTransports_def GetTransportById_def GetTransportLicenses_def
  GetTransportLicensesById_def GetGenKey_def GetStatistics_def GetAliment_def
  GetLawyers_def GetLawyerById_def GetCorruptOfficialsById_def GetCorruptOfficials_def
  GetPassport_def GetWanted_def GetFullPenaltyByNumber_def GetFullPenaltyDocByNumber_def
  GetFullPenalty_def GetPerformer_def GetPenaltiesByCode_def GetPenaltyByNumber_def
  GetPenalties_def GetKoatuuRegions_def GetKoatuuRegionsByCode_def GetRealty_def
  GetRealtyById_def GetRealtyResult_def GetRealtyReportByNumber_def GetTimeline_def

lemma checkApiKey_empty:
  "ApiKey (Settings odb) = [] \<Longrightarrow> checkApiKey odb = Some (errors_New ''ApiKey is not specified'')"
  by (simp add: checkApiKey_def)

text \<open>
  Claim C2, as the code has it. On a client whose credential is the empty string, every
  method that requires a credential returns an error made by \<open>errors.New\<close> and leaves the
  world as it was: no request is made and no map is written. The message is
  \<open>ApiKey is not specified\<close>, except that a method which checks its identifier first
  returns \<open>Id is not specified\<close> when that identifier is empty too.
\<close>

theorem credential_precheck:
  assumes empty: "ApiKey (Settings odb) = []" and needed: "requires_credential c"
  shows "invoke env odb c w =
    (Err (errors_New (if checked_identifier c = Some [] then ''Id is not specified''
                      else ''ApiKey is not specified'')), w)"
  using needed
  by (cases c)
     (simp_all add: catalogue_defs checkApiKey_empty [OF empty] checkNotEmpty_def
        requires_credential_def checked_identifier_def)

theorem credential_precheck_witness:
  "ApiKey (Settings (client_with_key [])) = []
   \<and> requires_credential (GetDpa_call ''2245134075'')
   \<and> invoke (mock_env \<lparr>StatusCode = 200, Body = Inr ''{}''\<rparr> (Inr :: string \<Rightarrow> error + string))
        (client_with_key []) (GetDpa_call ''2245134075'') empty_world
      = (Err (errors_New ''ApiKey is not specified''), empty_world)"
proof -
  have empty: "ApiKey (Settings (client_with_key [])) = []" by (simp add: client_with_key_def)
  have needed: "requires_credential (GetDpa_call ''2245134075'')"
    by (simp add: requires_credential_def)
  from credential_precheck [OF empty needed] empty needed show ?thesis
    by (simp add: checked_identifier_def)
qed

text \<open>
  \<open>GetGovernmentCompany\<close> checks its code before the credential: with both empty, the
  message is the one of the code.
\<close>

theorem GetGovernmentCompany_empty_code_message:
  "ApiKey (Settings (client_with_key [])) = []
   \<and> requires_credential (GetGovernmentCompany_call [])
   \<and> invoke (mock_env \<lparr>StatusCode = 200, Body = Inr ''{}''\<rparr> (Inr :: string \<Rightarrow> error + string))
        (client_with_key []) (GetGovernmentCompany_call []) empty_world
      = (Err (errors_New ''Id is not specified''), empty_world)
   \<and> errors_New ''Id is not specified'' \<noteq> errors_New ''ApiKey is not specified''"
  by (simp add: client_with_key_def requires_credential_def GetGovernmentCompany_def
      checkNotEmpty_def)

lemma identifier_precheck:
  assumes "checked_identifier c = Some []"
  shows "invoke env odb c w = (Err (errors_New ''Id is not specified''), w)"
  using assms
  by (cases c) (simp_all add: catalogue_defs checkNotEmpty_def checked_identifier_def)

text \<open>
  The methods that pass no argument to \<open>checkNotEmpty\<close> reach the transport whatever their
  identifiers are, the empty string included, once the credential is set, the caller's
  map is not nil and the endpoint parses.
\<close>

lemma Do_reaches_transport:
  assumes key: "ApiKey (Settings odb) \<noteq> []"
    and parse: "\<And>endpoint. \<exists>u. url_Parse env endpoint = Inr u"
  shows "length (requests (snd (Do env odb endpoint (Ref a) w))) = Suc (length (requests w))"
proof -
  let ?w1 = "w\<lparr>heap := (heap w)(a := AList.update ''apiKey'' (ApiKey (Settings odb)) (heap w a))\<rparr>"
  from parse obtain u where u: "url_Parse env endpoint = Inr u" by blast
  then obtain uri where
    built: "buildQueryParams (url_Parse env) endpoint (map_entries (Ref a) ?w1) = Inr uri"
    by (simp add: buildQueryParams_ok)
  from Do_sends [OF Do_with_key [OF key] built] show ?thesis by simp
qed

lemma map_assign_Ref:
  "map_assign (Ref a) k v w = Some (w\<lparr>heap := (heap w)(a := AList.update k v (heap w a))\<rparr>)"
  by (simp add: map_assign_def)

lemma checkApiKey_present: "ApiKey (Settings odb) \<noteq> [] \<Longrightarrow> checkApiKey odb = None"
  by (simp add: checkApiKey_def)

lemma unchecked_identifier_reaches_transport:
  assumes nocheck: "checked_identifier c = None"
    and key: "ApiKey (Settings odb) \<noteq> []"
    and map: "caller_params c \<noteq> Some nil"
    and parse: "\<And>endpoint. \<exists>u. url_Parse env endpoint = Inr u"
  shows "length (requests (snd (invoke env odb c w))) = Suc (length (requests w))"
proof -
  have sent: "length (requests (snd (Do env odb endpoint (Ref a) w))) = Suc (length (requests w))"
    for endpoint a w
    by (rule Do_reaches_transport [OF key parse])
  have notnil: "\<exists>a. p = Ref a" if "p \<noteq> nil" for p
    using that by (cases p) simp_all
  show ?thesis
    using nocheck map
    by (cases c)
       (auto simp: catalogue_defs checked_identifier_def caller_params_def map_literal_def
          map_assign_Ref checkApiKey_present [OF key] sent Let_def dest!: notnil)
qed

text \<open>
  Claim C3 at \<open>GetRealtyById\<close>. The method substitutes its two identifiers into the
  template and never passes them to \<open>checkNotEmpty\<close>: with a credential and two empty
  identifiers it requests \<open>.../realty//\<close> and returns what the service answers.
\<close>

theorem GetRealtyById_empty_identifiers:
  "path_identifiers (GetRealtyById_call [] []) = [[], []]
   \<and> checked_identifier (GetRealtyById_call [] []) = None
   \<and> fst (invoke (mock_env \<lparr>StatusCode = 200, Body = Inr ''{}''\<rparr> Inr) (client_with_key ''K'')
        (GetRealtyById_call [] []) empty_world) = Ok ''{}''
   \<and> requests (snd (invoke (mock_env \<lparr>StatusCode = 200, Body = Inr ''{}''\<rparr> Inr)
        (client_with_key ''K'') (GetRealtyById_call [] []) empty_world))
      = [''https://opendatabot.com/api/v2/realty//?apiKey=K'']"
proof -
  have "path_identifiers (GetRealtyById_call [] []) = [[], []]"
    by (simp add: path_identifiers_def)
  moreover have "checked_identifier (GetRealtyById_call [] []) = None"
    by (simp add: checked_identifier_def)
  moreover have "fst (invoke (mock_env \<lparr>StatusCode = 200, Body = Inr ''{}''\<rparr> Inr)
      (client_with_key ''K'') (GetRealtyById_call [] []) empty_world) = Ok ''{}''"
    by code_simp
  moreover have "requests (snd (invoke (mock_env \<lparr>StatusCode = 200, Body = Inr ''{}''\<rparr> Inr)
        (client_with_key ''K'') (GetRealtyById_call [] []) empty_world))
      = [''https://opendatabot.com/api/v2/realty//?apiKey=K'']"
    by code_simp
  ultimately show ?thesis by simp
qed

lemma Do_reads_ApiKey_only:
  "ApiKey (Settings odb1) = ApiKey (Settings odb2) \<Longrightarrow>
   Do env odb1 endpoint params w = Do env odb2 endpoint params w"
  by (simp add: Do_def)

lemma checkApiKey_reads_ApiKey_only:
  "ApiKey (Settings odb1) = ApiKey (Settings odb2) \<Longrightarrow> checkApiKey odb1 = checkApiKey odb2"
  by (simp add: checkApiKey_def)

lemma invoke_reads_ApiKey_only:
  assumes same: "ApiKey (Settings odb1) = ApiKey (Settings odb2)"
  shows "invoke env odb1 c w = invoke env odb2 c w"
proof -
  have D: "\<And>endpoint params w. Do env odb1 endpoint params w = Do env odb2 endpoint params w"
    by (rule Do_reads_ApiKey_only [OF same])
  have K: "checkApiKey odb1 = checkApiKey odb2"
    by (rule checkApiKey_reads_ApiKey_only [OF same])
  show ?thesis
    by (cases c) (simp_all add: catalogue_defs D K Let_def split: option.splits prod.splits)
qed

text \<open>
  Claim C10. No endpoint method reads \<open>Settings.Client\<close>: a client and the same client with
  any other transport handle give the same result and the same world (the same requests,
  the same maps) on every call.
\<close>

theorem invoke_ignores_Client:
  "invoke env (odb\<lparr>Settings := (Settings odb)\<lparr>Client := handle\<rparr>\<rparr>) c w = invoke env odb c w"
  by (rule invoke_reads_ApiKey_only) simp

theorem invoke_ignores_Client_witness:
  "invoke (mock_env \<lparr>StatusCode = 200, Body = Inr ''{}''\<rparr> (Inr :: string \<Rightarrow> error + string))
      ((client_with_key ''K'')\<lparr>Settings := (Settings (client_with_key ''K''))\<lparr>Client := Some ()\<rparr>\<rparr>)
      (GetStatistics_call) empty_world
   = invoke (mock_env \<lparr>StatusCode = 200, Body = Inr ''{}''\<rparr> (Inr :: string \<Rightarrow> error + string))
      (client_with_key ''K'') (GetStatistics_call) empty_world
   \<and> requests (snd (invoke (mock_env \<lparr>StatusCode = 200, Body = Inr ''{}''\<rparr> (Inr :: string \<Rightarrow> error + string))
      ((client_with_key ''K'')\<lparr>Settings := (Settings (client_with_key ''K''))\<lparr>Client := Some ()\<rparr>\<rparr>)
      (GetStatistics_call) empty_world))
     = [''https://opendatabot.com/api/v2/statistics?apiKey=K'']"
proof -
  have "requests (snd (invoke (mock_env \<lparr>StatusCode = 200, Body = Inr ''{}''\<rparr> (Inr :: string \<Rightarrow> error + string))
      (client_with_key ''K'') (GetStatistics_call) empty_world))
     = [''https://opendatabot.com/api/v2/statistics?apiKey=K'']"
    by code_simp
  then show ?thesis
    using invoke_ignores_Client
      [where env = "mock_env \<lparr>StatusCode = 200, Body = Inr ''{}''\<rparr> (Inr :: string \<Rightarrow> error + string)"
         and odb = "client_with_key ''K''" and handle = "Some ()" and c = GetStatistics_call
         and w = empty_world]
    by simp
qed

end
